theory Spec2Isabelle
  imports Main "HOL-Library.Char_ord" "HOL-Library.List_Lexorder"
    "HOL-Library.Product_Lexorder"
begin

section \<open>Calscape geophytes: the data model\<close>

text \<open>
  The program \<^verbatim>\<open>calscape_geophytes.py\<close> joins a Calscape spreadsheet export with an
  iNaturalist taxa table. Python strings are \<^typ>\<open>string\<close>; their comparison (used by
  \<^verbatim>\<open>sorted\<close>) is the lexicographic order on characters, which is the order of
  \<open>List_Lexorder\<close> over \<open>Char_ord\<close>. Python sets are HOL sets, dictionaries are maps.
  Every exception the code can raise is a value of \<open>error\<close>, and a function that can raise
  returns \<open>error + 'a\<close>.
\<close>

datatype error = AssertionError | AttributeError | IndexError | KeyError

text \<open>
  The value of a spreadsheet cell: \<open>Some s\<close> for a text cell, \<open>None\<close> for an empty one
  (Python's \<^verbatim>\<open>None\<close>).
\<close>

type_synonym cell = "string option"

text \<open>
  The worksheet as \<^verbatim>\<open>get_column\<close> sees it: the value of the cell at a column letter
  and a row number, and \<^verbatim>\<open>sheet.max_row\<close>.
\<close>

record worksheet =
  cell_value :: "string \<Rightarrow> nat \<Rightarrow> cell"
  max_row :: nat

text \<open>
  \<^verbatim>\<open>BRODIAE_SUBFAMILY_GENUSES\<close> and \<^verbatim>\<open>AGAVE_SUBFAMILY_GEOPHYTE_GENUSES\<close>.
\<close>

definition BRODIAE_SUBFAMILY_GENUSES :: "string list" where
  "BRODIAE_SUBFAMILY_GENUSES =
     [''Androstephium'', ''Bessera'', ''Bloomeria'', ''Brodiaea'', ''Dandya'',
      ''Dichelostemma'', ''Milla'', ''Muilla'', ''Petronymphe'', ''Triteleia'',
      ''Triteleiopsis'']"

definition AGAVE_SUBFAMILY_GEOPHYTE_GENUSES :: "string list" where
  "AGAVE_SUBFAMILY_GEOPHYTE_GENUSES =
     [''Camassia'', ''Chlorogalum'', ''Hesperocallis'', ''Leucocrinum'']"

section \<open>Reading a column\<close>

text \<open>
  \<^verbatim>\<open>get_column(sheet, expected_name, start_row, column)\<close>: the header cell must equal
  \<open>expected_name\<close> (the \<^verbatim>\<open>assert\<close>), and the result holds the values of the rows
  \<open>start_row + 1\<close> to \<open>max_row\<close>, both included; the range is empty when
  \<open>max_row \<le> start_row\<close>.
\<close>

definition get_column :: "worksheet \<Rightarrow> string \<Rightarrow> nat \<Rightarrow> string \<Rightarrow> error + cell list" where
  "get_column sheet expected_name start_row column =
     (let first = cell_value sheet column start_row in
      if first = Some expected_name
      then Inr (map (cell_value sheet column) [start_row + 1 ..< max_row sheet + 1])
      else Inl AssertionError)"

section \<open>Genus derivation\<close>

text \<open>
  \<^verbatim>\<open>x.split(" ")\<close>: the pieces of \<open>x\<close> between the occurrences of the separator.
  The result is never empty.
\<close>

fun split :: "char \<Rightarrow> string \<Rightarrow> string list" where
  "split sep [] = [[]]"
| "split sep (c # cs) =
     (if c = sep then [] # split sep cs
      else (case split sep cs of
              [] \<Rightarrow> [[c]]
            | w # ws \<Rightarrow> (c # w) # ws))"

text \<open>
  \<^verbatim>\<open>x.split(" ")[0]\<close>, with the \<^verbatim>\<open>IndexError\<close> of indexing an empty list written out.
\<close>

definition first_token :: "string \<Rightarrow> error + string" where
  "first_token x = (case split (CHR '' '') x of [] \<Rightarrow> Inl IndexError | w # _ \<Rightarrow> Inr w)"

section \<open>CalscapePlants\<close>

record CalscapePlants =
  genus_to_species :: "string \<rightharpoonup> string set"
  species_to_url :: "cell \<rightharpoonup> cell"
  species_to_common_name :: "cell \<rightharpoonup> cell"

text \<open>
  One round of \<^verbatim>\<open>for x in species: self.genus_to_species[x.split(" ")[0]].add(x)\<close>
  on a \<^verbatim>\<open>defaultdict(set)\<close>. An empty cell has no \<^verbatim>\<open>split\<close>: \<^verbatim>\<open>AttributeError\<close>.
\<close>

definition add_species :: "cell \<Rightarrow> (string \<rightharpoonup> string set) \<Rightarrow> error + (string \<rightharpoonup> string set)" where
  "add_species x m =
     (case x of
        None \<Rightarrow> Inl AttributeError
      | Some s \<Rightarrow>
          (case first_token s of
             Inl e \<Rightarrow> Inl e
           | Inr g \<Rightarrow> Inr (m(g \<mapsto> insert s (case m g of None \<Rightarrow> {} | Some S \<Rightarrow> S)))))"

fun index_species :: "cell list \<Rightarrow> (string \<rightharpoonup> string set) \<Rightarrow> error + (string \<rightharpoonup> string set)" where
  "index_species [] m = Inr m"
| "index_species (x # xs) m =
     (case add_species x m of Inl e \<Rightarrow> Inl e | Inr m' \<Rightarrow> index_species xs m')"

text \<open>\<^verbatim>\<open>dict(pairs)\<close>: a later pair with the same key replaces an earlier one.\<close>

fun dict :: "('k \<times> 'v) list \<Rightarrow> ('k \<rightharpoonup> 'v) \<Rightarrow> ('k \<rightharpoonup> 'v)" where
  "dict [] m = m"
| "dict ((k, v) # kvs) m = dict kvs (m(k \<mapsto> v))"

text \<open>\<^verbatim>\<open>CalscapePlants.__init__\<close>, from the active sheet of the workbook.\<close>

definition CalscapePlants_init :: "worksheet \<Rightarrow> error + CalscapePlants" where
  "CalscapePlants_init sheet =
     (case get_column sheet ''Botanical Name'' 6 ''A'' of
        Inl e \<Rightarrow> Inl e
      | Inr species \<Rightarrow>
     (case get_column sheet ''Common Name'' 6 ''B'' of
        Inl e \<Rightarrow> Inl e
      | Inr common_names \<Rightarrow>
     (case get_column sheet ''Plant Url'' 6 ''AW'' of
        Inl e \<Rightarrow> Inl e
      | Inr urls \<Rightarrow>
     (case index_species species Map.empty of
        Inl e \<Rightarrow> Inl e
      | Inr g2s \<Rightarrow>
          Inr \<lparr> genus_to_species = g2s,
                species_to_url = dict (zip species urls) Map.empty,
                species_to_common_name = dict (zip species common_names) Map.empty \<rparr>))))"

definition genuses :: "CalscapePlants \<Rightarrow> string set" where
  "genuses self = dom (genus_to_species self)"

definition species_for_genus :: "CalscapePlants \<Rightarrow> string \<Rightarrow> string set" where
  "species_for_genus self genus =
     (case genus_to_species self genus of None \<Rightarrow> {} | Some S \<Rightarrow> S)"

definition common_name_for_species :: "CalscapePlants \<Rightarrow> string \<Rightarrow> error + cell" where
  "common_name_for_species self species =
     (case species_to_common_name self (Some species) of
        None \<Rightarrow> Inl KeyError
      | Some v \<Rightarrow> Inr v)"

definition url_for_species :: "CalscapePlants \<Rightarrow> string \<Rightarrow> error + cell" where
  "url_for_species self species =
     (case species_to_url self (Some species) of
        None \<Rightarrow> Inl KeyError
      | Some v \<Rightarrow> Inr v)"

section \<open>InatPlantTaxa\<close>

text \<open>
  One record of the taxa file as \<^verbatim>\<open>csv.DictReader\<close> yields it, with the four fields
  the code reads.
\<close>

record taxon_row =
  kingdom :: string
  taxonRank :: string
  family :: string
  scientificName :: string

record InatPlantTaxa =
  family_to_genus :: "string \<rightharpoonup> string set"
  genus_to_family :: "string \<rightharpoonup> string"

text \<open>The body of the loop of \<^verbatim>\<open>InatPlantTaxa.__init__\<close>.\<close>

definition add_taxon :: "taxon_row \<Rightarrow> InatPlantTaxa \<Rightarrow> InatPlantTaxa" where
  "add_taxon row self =
     (if kingdom row = ''Plantae'' \<and> taxonRank row = ''genus''
      then self \<lparr> family_to_genus :=
                    (family_to_genus self)
                      (family row \<mapsto>
                         insert (scientificName row)
                           (case family_to_genus self (family row) of
                              None \<Rightarrow> {} | Some S \<Rightarrow> S)),
                  genus_to_family :=
                    (genus_to_family self)(scientificName row \<mapsto> family row) \<rparr>
      else self)"

fun read_taxa :: "taxon_row list \<Rightarrow> InatPlantTaxa \<Rightarrow> InatPlantTaxa" where
  "read_taxa [] self = self"
| "read_taxa (row # rows) self = read_taxa rows (add_taxon row self)"

definition InatPlantTaxa_init :: "taxon_row list \<Rightarrow> InatPlantTaxa" where
  "InatPlantTaxa_init rows =
     read_taxa rows \<lparr> family_to_genus = Map.empty, genus_to_family = Map.empty \<rparr>"

definition genuses_for_family :: "InatPlantTaxa \<Rightarrow> string \<Rightarrow> string set" where
  "genuses_for_family self fam =
     (case family_to_genus self fam of None \<Rightarrow> {} | Some S \<Rightarrow> S)"

definition family_for_genus :: "InatPlantTaxa \<Rightarrow> string \<Rightarrow> error + string" where
  "family_for_genus self genus =
     (case genus_to_family self genus of None \<Rightarrow> Inl KeyError | Some f \<Rightarrow> Inr f)"

section \<open>CalscapeGeophytes\<close>

type_synonym family_tree = "string \<rightharpoonup> (string \<rightharpoonup> string set)"

record CalscapeGeophytes =
  calscape_plants :: CalscapePlants
  inat_taxa :: InatPlantTaxa
  calscape_genuses :: "string set"
  geophytes :: "string set"
  family_tree :: family_tree

text \<open>\<^verbatim>\<open>add_genus\<close>: \<^verbatim>\<open>self.geophytes.update(...)\<close>.\<close>

definition add_genus :: "CalscapeGeophytes \<Rightarrow> string \<Rightarrow> CalscapeGeophytes" where
  "add_genus self genus =
     self \<lparr> geophytes := geophytes self \<union> species_for_genus (calscape_plants self) genus \<rparr>"

text \<open>\<^verbatim>\<open>for genus in genuses: self.add_genus(genus)\<close>.\<close>

fun add_genus_each :: "CalscapeGeophytes \<Rightarrow> string list \<Rightarrow> CalscapeGeophytes" where
  "add_genus_each self [] = self"
| "add_genus_each self (genus # rest) = add_genus_each (add_genus self genus) rest"

text \<open>
  \<^verbatim>\<open>add_family\<close>. Python visits the elements of a set in an order of its own; the model
  visits them in ascending order. Lemma \<open>add_genus_each_geophytes\<close> below shows that the
  result depends on the set of visited genera only.
\<close>

definition add_family :: "CalscapeGeophytes \<Rightarrow> string \<Rightarrow> CalscapeGeophytes" where
  "add_family self fam =
     (let in_calscape = calscape_genuses self \<inter> genuses_for_family (inat_taxa self) fam
      in add_genus_each self (sorted_list_of_set in_calscape))"

text \<open>
  The cell \<^verbatim>\<open>family_tree[family][genus]\<close> of the nested \<^verbatim>\<open>defaultdict\<close>, read without
  creating it: a missing entry stands for the empty set.
\<close>

definition tree_cell :: "family_tree \<Rightarrow> string \<Rightarrow> string \<Rightarrow> string set" where
  "tree_cell t fam genus =
     (case t fam of
        None \<Rightarrow> {}
      | Some inner \<Rightarrow> (case inner genus of None \<Rightarrow> {} | Some S \<Rightarrow> S))"

text \<open>\<^verbatim>\<open>self.family_tree[family][genus].add(species)\<close>, creating missing entries.\<close>

definition tree_add :: "family_tree \<Rightarrow> string \<Rightarrow> string \<Rightarrow> string \<Rightarrow> family_tree" where
  "tree_add t fam genus species =
     (let inner = (case t fam of None \<Rightarrow> Map.empty | Some i \<Rightarrow> i);
          cell = (case inner genus of None \<Rightarrow> {} | Some S \<Rightarrow> S)
      in t(fam \<mapsto> inner(genus \<mapsto> insert species cell)))"

text \<open>The body of the loop of lines 115 to 118, for one species.\<close>

definition place_species :: "InatPlantTaxa \<Rightarrow> string \<Rightarrow> family_tree \<Rightarrow> error + family_tree" where
  "place_species taxa species t =
     (case first_token species of
        Inl e \<Rightarrow> Inl e
      | Inr genus \<Rightarrow>
          (case family_for_genus taxa genus of
             Inl e \<Rightarrow> Inl e
           | Inr fam \<Rightarrow> Inr (tree_add t fam genus species)))"

fun build_family_tree :: "InatPlantTaxa \<Rightarrow> string list \<Rightarrow> family_tree \<Rightarrow> error + family_tree" where
  "build_family_tree taxa [] t = Inr t"
| "build_family_tree taxa (species # rest) t =
     (case place_species taxa species t of
        Inl e \<Rightarrow> Inl e
      | Inr t' \<Rightarrow> build_family_tree taxa rest t')"

text \<open>
  Lines 102 to 113 of \<^verbatim>\<open>CalscapeGeophytes.__init__\<close>: the inclusion rules. The attribute
  \<open>family_tree\<close> does not exist yet at this point; the record holds the empty tree.
\<close>

definition select_geophytes :: "CalscapePlants \<Rightarrow> InatPlantTaxa \<Rightarrow> CalscapeGeophytes" where
  "select_geophytes plants taxa =
     (let self = \<lparr> calscape_plants = plants, inat_taxa = taxa,
                   calscape_genuses = genuses plants, geophytes = {},
                   family_tree = Map.empty \<rparr>;
          self = add_family self ''Liliaceae'';
          self = add_genus_each self BRODIAE_SUBFAMILY_GENUSES;
          self = add_genus self ''Allium'';
          self = add_family self ''Iridaceae'';
          self = add_genus_each self AGAVE_SUBFAMILY_GEOPHYTE_GENUSES;
          self = add_family self ''Tecophilaeaceae''
      in self)"

text \<open>
  \<^verbatim>\<open>CalscapeGeophytes.__init__\<close>: the inclusion rules, then the family tree, built by one
  pass over the geophyte set (in ascending order in the model; lemma
  \<open>build_family_tree_cell\<close> shows that the order does not matter).
\<close>

definition CalscapeGeophytes_init :: "CalscapePlants \<Rightarrow> InatPlantTaxa \<Rightarrow> error + CalscapeGeophytes" where
  "CalscapeGeophytes_init plants taxa =
     (let self = select_geophytes plants taxa in
      case build_family_tree taxa (sorted_list_of_set (geophytes self)) Map.empty of
        Inl e \<Rightarrow> Inl e
      | Inr t \<Rightarrow> Inr (self \<lparr> family_tree := t \<rparr>))"

section \<open>Reporting\<close>

text \<open>The cultivar marker, the apostrophe.\<close>

definition cultivar_marker :: char where
  "cultivar_marker = CHR 0x27"

text \<open>
  \<^verbatim>\<open>print_summary\<close>: the four numbers it prints. The sums run over a set and over the
  values of a dictionary, visited here in ascending order of the elements and of the keys.
\<close>

record summary =
  num_geophytes :: nat
  num_no_cultivars :: nat
  num_genera :: nat
  num_families :: nat

definition print_summary :: "CalscapeGeophytes \<Rightarrow> summary" where
  "print_summary self =
     \<lparr> num_geophytes = card (geophytes self),
       num_no_cultivars =
         sum_list (map (\<lambda>x. 1)
           (filter (\<lambda>x. cultivar_marker \<notin> set x) (sorted_list_of_set (geophytes self)))),
       num_genera =
         sum_list (map (\<lambda>fam. case family_tree self fam of
                                 None \<Rightarrow> 0
                               | Some inner \<Rightarrow> card (dom inner))
           (sorted_list_of_set (dom (family_tree self)))),
       num_families = card (dom (family_tree self)) \<rparr>"

text \<open>One row of the report, the dictionary built at lines 148 to 156.\<close>

record csv_row =
  row_family :: string
  row_genus :: string
  row_species :: string
  row_common_name :: cell
  row_url :: cell

text \<open>The loop over the species of one genus (lines 144 to 157).\<close>

fun species_rows ::
  "CalscapePlants \<Rightarrow> bool \<Rightarrow> string \<Rightarrow> string \<Rightarrow> string list \<Rightarrow> csv_row list \<Rightarrow> error + csv_row list" where
  "species_rows plants exclude_cultivars fam genus [] rows = Inr rows"
| "species_rows plants exclude_cultivars fam genus (name # rest) rows =
     (if exclude_cultivars \<and> cultivar_marker \<in> set name
      then species_rows plants exclude_cultivars fam genus rest rows
      else
        (case common_name_for_species plants name of
           Inl e \<Rightarrow> Inl e
         | Inr cn \<Rightarrow>
        (case url_for_species plants name of
           Inl e \<Rightarrow> Inl e
         | Inr u \<Rightarrow>
             species_rows plants exclude_cultivars fam genus rest
               (rows @ [\<lparr> row_family = fam, row_genus = genus, row_species = name,
                          row_common_name = cn, row_url = u \<rparr>]))))"

text \<open>The loop over the genera of one family (lines 142 to 157).\<close>

fun genus_rows ::
  "CalscapeGeophytes \<Rightarrow> bool \<Rightarrow> string \<Rightarrow> string list \<Rightarrow> csv_row list \<Rightarrow> error + csv_row list" where
  "genus_rows self exclude_cultivars fam [] rows = Inr rows"
| "genus_rows self exclude_cultivars fam (genus # rest) rows =
     (let species = sorted_list_of_set (tree_cell (family_tree self) fam genus) in
      case species_rows (calscape_plants self) exclude_cultivars fam genus species rows of
        Inl e \<Rightarrow> Inl e
      | Inr rows' \<Rightarrow> genus_rows self exclude_cultivars fam rest rows')"

text \<open>The loop over the families (lines 140 to 157).\<close>

fun family_rows ::
  "CalscapeGeophytes \<Rightarrow> bool \<Rightarrow> string list \<Rightarrow> csv_row list \<Rightarrow> error + csv_row list" where
  "family_rows self exclude_cultivars [] rows = Inr rows"
| "family_rows self exclude_cultivars (fam # rest) rows =
     (let genuses = sorted_list_of_set
            (dom (case family_tree self fam of None \<Rightarrow> Map.empty | Some inner \<Rightarrow> inner)) in
      case genus_rows self exclude_cultivars fam genuses rows of
        Inl e \<Rightarrow> Inl e
      | Inr rows' \<Rightarrow> family_rows self exclude_cultivars rest rows')"

text \<open>Lines 138 to 157 of \<^verbatim>\<open>write_csv\<close>: the rows of the report.\<close>

definition csv_rows :: "CalscapeGeophytes \<Rightarrow> bool \<Rightarrow> error + csv_row list" where
  "csv_rows self exclude_cultivars =
     (let families = sorted_list_of_set (dom (family_tree self))
      in family_rows self exclude_cultivars families [])"

text \<open>
  The file system: the files that exist, each with the field names of its header and its
  rows. \<^verbatim>\<open>write_csv\<close> opens the path for writing only when there is a row.
\<close>

type_synonym csv_file = "string list \<times> csv_row list"
type_synonym filesystem = "string \<rightharpoonup> csv_file"

definition fieldnames :: "string list" where
  "fieldnames = [''family'', ''genus'', ''species'', ''common_name'', ''url'']"

definition write_csv :: "CalscapeGeophytes \<Rightarrow> string \<Rightarrow> bool \<Rightarrow> filesystem \<Rightarrow> error + filesystem" where
  "write_csv self path exclude_cultivars fs =
     (case csv_rows self exclude_cultivars of
        Inl e \<Rightarrow> Inl e
      | Inr rows \<Rightarrow>
          if rows = [] then Inr fs
          else Inr (fs(path \<mapsto> (fieldnames, rows))))"

section \<open>Notions used in the statements\<close>

text \<open>
  The genera that the inclusion rules of \<^verbatim>\<open>CalscapeGeophytes.__init__\<close> name: those of
  the source table that the taxonomy puts in one of the three families, and the explicit
  genus lists.
\<close>

definition explicit_genuses :: "string list" where
  "explicit_genuses =
     BRODIAE_SUBFAMILY_GENUSES @ [''Allium''] @ AGAVE_SUBFAMILY_GEOPHYTE_GENUSES"

definition included_genuses :: "CalscapePlants \<Rightarrow> InatPlantTaxa \<Rightarrow> string set" where
  "included_genuses plants taxa =
     genuses plants \<inter>
       (genuses_for_family taxa ''Liliaceae'' \<union> genuses_for_family taxa ''Iridaceae'' \<union>
        genuses_for_family taxa ''Tecophilaeaceae'') \<union>
     set BRODIAE_SUBFAMILY_GENUSES \<union> {''Allium''} \<union> set AGAVE_SUBFAMILY_GEOPHYTE_GENUSES"

text \<open>A species whose genus the taxonomy maps to a family.\<close>

definition mapped :: "InatPlantTaxa \<Rightarrow> string \<Rightarrow> bool" where
  "mapped taxa s \<longleftrightarrow> (\<exists>g f. first_token s = Inr g \<and> family_for_genus taxa g = Inr f)"

text \<open>
  A family tree as a Python dictionary holds it: finitely many families, finitely many
  genera in each, finitely many species in each cell.
\<close>

definition tree_finite :: "family_tree \<Rightarrow> bool" where
  "tree_finite t \<longleftrightarrow>
     finite (dom t) \<and> (\<forall>f i. t f = Some i \<longrightarrow> finite (dom i) \<and> (\<forall>g S. i g = Some S \<longrightarrow> finite S))"

text \<open>
  The sort key of a row, compared in the lexicographic order of triples, and the same
  order written out: family first, then genus, then species.
\<close>

definition row_key :: "csv_row \<Rightarrow> string \<times> string \<times> string" where
  "row_key r = (row_family r, row_genus r, row_species r)"

definition row_before :: "csv_row \<Rightarrow> csv_row \<Rightarrow> bool" where
  "row_before r1 r2 \<longleftrightarrow>
     row_family r1 < row_family r2 \<or>
     (row_family r1 = row_family r2 \<and>
      (row_genus r1 < row_genus r2 \<or>
       (row_genus r1 = row_genus r2 \<and> row_species r1 < row_species r2)))"

text \<open>
  The species that the loop of \<^verbatim>\<open>write_csv\<close> does not skip, and the keys of the rows it
  appends, in the order of the three nested loops.
\<close>

definition keep :: "bool \<Rightarrow> string \<Rightarrow> bool" where
  "keep exclude_cultivars name \<longleftrightarrow> \<not> (exclude_cultivars \<and> cultivar_marker \<in> set name)"

definition genus_keys :: "family_tree \<Rightarrow> bool \<Rightarrow> string \<Rightarrow> string \<Rightarrow> (string \<times> string \<times> string) list" where
  "genus_keys t ex fam genus =
     map (\<lambda>name. (fam, genus, name)) (filter (keep ex) (sorted_list_of_set (tree_cell t fam genus)))"

definition family_keys :: "family_tree \<Rightarrow> bool \<Rightarrow> string \<Rightarrow> (string \<times> string \<times> string) list" where
  "family_keys t ex fam =
     concat (map (genus_keys t ex fam)
       (sorted_list_of_set (dom (case t fam of None \<Rightarrow> Map.empty | Some inner \<Rightarrow> inner))))"

definition tree_keys :: "family_tree \<Rightarrow> bool \<Rightarrow> (string \<times> string \<times> string) list" where
  "tree_keys t ex = concat (map (family_keys t ex) (sorted_list_of_set (dom t)))"

text \<open>
  Both lookups of a species succeed; and the rows of a list carry the values that the
  lookups return.
\<close>

definition found :: "CalscapePlants \<Rightarrow> string \<Rightarrow> bool" where
  "found plants name \<longleftrightarrow>
     (\<exists>cn. common_name_for_species plants name = Inr cn) \<and>
     (\<exists>u. url_for_species plants name = Inr u)"

definition rows_found :: "CalscapePlants \<Rightarrow> csv_row list \<Rightarrow> bool" where
  "rows_found plants rows \<longleftrightarrow>
     (\<forall>r\<in>set rows. common_name_for_species plants (row_species r) = Inr (row_common_name r) \<and>
                   url_for_species plants (row_species r) = Inr (row_url r))"

text \<open>
  The derived genus as the specification words it, the first whitespace-delimited token of
  the species name (Python's \<^verbatim>\<open>x.split()[0]\<close>): leading whitespace is skipped and the
  token ends at the next whitespace character. It is compared below with \<open>first_token\<close>,
  which is what the code computes.
\<close>

definition is_whitespace :: "char \<Rightarrow> bool" where
  "is_whitespace c \<longleftrightarrow>
     c \<in> {CHR '' '', CHR 0x09, CHR 0x0A, CHR 0x0B, CHR 0x0C, CHR 0x0D}"

definition whitespace_token_spec :: "string \<Rightarrow> string" where
  "whitespace_token_spec x = takeWhile (\<lambda>c. \<not> is_whitespace c) (dropWhile is_whitespace x)"

text \<open>The records that \<^verbatim>\<open>InatPlantTaxa.__init__\<close> keeps.\<close>

definition is_plant_genus :: "taxon_row \<Rightarrow> bool" where
  "is_plant_genus row \<longleftrightarrow> kingdom row = ''Plantae'' \<and> taxonRank row = ''genus''"

section \<open>Worked examples\<close>

text \<open>
  A source table with three species, one of them a cultivar; a table with the header row
  only; a table whose only species name has a single token; and taxonomy files that map
  all, or only some, of the genera.
\<close>

definition orion :: string where
  "orion = ''Camassia quamash 'Orion'' @ [cultivar_marker]"

definition example_sheet :: worksheet where
  "example_sheet =
     \<lparr> cell_value = (\<lambda>column row. map_of
         [((''A'', 6), ''Botanical Name''), ((''B'', 6), ''Common Name''),
          ((''AW'', 6), ''Plant Url''),
          ((''A'', 7), ''Iris douglasiana''), ((''B'', 7), ''Douglas Iris''),
          ((''AW'', 7), ''calscape.org/iris''),
          ((''A'', 8), orion), ((''B'', 8), ''Orion Camas''),
          ((''AW'', 8), ''calscape.org/camassia''),
          ((''A'', 9), ''Quercus agrifolia''), ((''B'', 9), ''Coast Live Oak''),
          ((''AW'', 9), ''calscape.org/quercus'')]
         (column, row)),
       max_row = 9 \<rparr>"

definition example_species :: "cell list" where
  "example_species = [Some ''Iris douglasiana'', Some orion, Some ''Quercus agrifolia'']"

definition example_plants :: CalscapePlants where
  "example_plants =
     \<lparr> genus_to_species =
         [''Iris'' \<mapsto> {''Iris douglasiana''}, ''Camassia'' \<mapsto> {orion},
          ''Quercus'' \<mapsto> {''Quercus agrifolia''}],
       species_to_url =
         [Some ''Iris douglasiana'' \<mapsto> Some ''calscape.org/iris'',
          Some orion \<mapsto> Some ''calscape.org/camassia'',
          Some ''Quercus agrifolia'' \<mapsto> Some ''calscape.org/quercus''],
       species_to_common_name =
         [Some ''Iris douglasiana'' \<mapsto> Some ''Douglas Iris'',
          Some orion \<mapsto> Some ''Orion Camas'',
          Some ''Quercus agrifolia'' \<mapsto> Some ''Coast Live Oak''] \<rparr>"

definition empty_sheet :: worksheet where
  "empty_sheet =
     \<lparr> cell_value = (\<lambda>column row. map_of
         [((''A'', 6), ''Botanical Name''), ((''B'', 6), ''Common Name''),
          ((''AW'', 6), ''Plant Url'')]
         (column, row)),
       max_row = 6 \<rparr>"

definition empty_plants :: CalscapePlants where
  "empty_plants =
     \<lparr> genus_to_species = Map.empty, species_to_url = Map.empty,
       species_to_common_name = Map.empty \<rparr>"

definition one_token_sheet :: worksheet where
  "one_token_sheet =
     \<lparr> cell_value = (\<lambda>column row. map_of
         [((''A'', 6), ''Botanical Name''), ((''B'', 6), ''Common Name''),
          ((''AW'', 6), ''Plant Url''),
          ((''A'', 7), ''Allium''), ((''B'', 7), ''Wild Onion''),
          ((''AW'', 7), ''calscape.org/allium'')]
         (column, row)),
       max_row = 7 \<rparr>"

definition one_token_plants :: CalscapePlants where
  "one_token_plants =
     \<lparr> genus_to_species = [''Allium'' \<mapsto> {''Allium''}],
       species_to_url = [Some ''Allium'' \<mapsto> Some ''calscape.org/allium''],
       species_to_common_name = [Some ''Allium'' \<mapsto> Some ''Wild Onion''] \<rparr>"

definition iris_row :: taxon_row where
  "iris_row = \<lparr> kingdom = ''Plantae'', taxonRank = ''genus'', family = ''Iridaceae'',
                 scientificName = ''Iris'' \<rparr>"

definition camassia_row :: taxon_row where
  "camassia_row = \<lparr> kingdom = ''Plantae'', taxonRank = ''genus'', family = ''Asparagaceae'',
                     scientificName = ''Camassia'' \<rparr>"

definition quercus_row :: taxon_row where
  "quercus_row = \<lparr> kingdom = ''Plantae'', taxonRank = ''genus'', family = ''Fagaceae'',
                    scientificName = ''Quercus'' \<rparr>"

definition felis_row :: taxon_row where
  "felis_row = \<lparr> kingdom = ''Animalia'', taxonRank = ''genus'', family = ''Felidae'',
                  scientificName = ''Felis'' \<rparr>"

definition iridaceae_row :: taxon_row where
  "iridaceae_row = \<lparr> kingdom = ''Plantae'', taxonRank = ''family'', family = ''Iridaceae'',
                      scientificName = ''Iridaceae'' \<rparr>"

definition iris_as_lily_row :: taxon_row where
  "iris_as_lily_row = \<lparr> kingdom = ''Plantae'', taxonRank = ''genus'', family = ''Liliaceae'',
                         scientificName = ''Iris'' \<rparr>"

definition example_taxa :: InatPlantTaxa where
  "example_taxa =
     InatPlantTaxa_init [iris_row, camassia_row, quercus_row, felis_row, iridaceae_row]"

definition no_iris_taxa :: InatPlantTaxa where
  "no_iris_taxa = InatPlantTaxa_init [camassia_row, quercus_row]"

definition no_camassia_taxa :: InatPlantTaxa where
  "no_camassia_taxa = InatPlantTaxa_init [iris_row, quercus_row]"

definition example_start :: CalscapeGeophytes where
  "example_start =
     \<lparr> calscape_plants = example_plants, inat_taxa = example_taxa,
       calscape_genuses = {''Iris'', ''Camassia'', ''Quercus''},
       geophytes = {}, family_tree = Map.empty \<rparr>"

definition example_geophytes :: CalscapeGeophytes where
  "example_geophytes =
     \<lparr> calscape_plants = example_plants, inat_taxa = example_taxa,
       calscape_genuses = {''Iris'', ''Camassia'', ''Quercus''},
       geophytes = {''Iris douglasiana'', orion},
       family_tree = [''Asparagaceae'' \<mapsto> [''Camassia'' \<mapsto> {orion}],
                      ''Iridaceae'' \<mapsto> [''Iris'' \<mapsto> {''Iris douglasiana''}]] \<rparr>"

definition cultivar_geophytes :: CalscapeGeophytes where
  "cultivar_geophytes =
     \<lparr> calscape_plants = example_plants, inat_taxa = no_iris_taxa,
       calscape_genuses = {''Iris'', ''Camassia'', ''Quercus''},
       geophytes = {orion},
       family_tree = [''Asparagaceae'' \<mapsto> [''Camassia'' \<mapsto> {orion}]] \<rparr>"

definition empty_geophytes :: CalscapeGeophytes where
  "empty_geophytes =
     \<lparr> calscape_plants = empty_plants, inat_taxa = example_taxa,
       calscape_genuses = {}, geophytes = {}, family_tree = Map.empty \<rparr>"

definition orion_row :: csv_row where
  "orion_row =
     \<lparr> row_family = ''Asparagaceae'', row_genus = ''Camassia'', row_species = orion,
       row_common_name = Some ''Orion Camas'', row_url = Some ''calscape.org/camassia'' \<rparr>"

definition douglas_iris_row :: csv_row where
  "douglas_iris_row =
     \<lparr> row_family = ''Iridaceae'', row_genus = ''Iris'', row_species = ''Iris douglasiana'',
       row_common_name = Some ''Douglas Iris'', row_url = Some ''calscape.org/iris'' \<rparr>"

definition conflicting_taxa :: InatPlantTaxa where
  "conflicting_taxa = InatPlantTaxa_init [iris_row, iris_as_lily_row]"

definition allium_row :: taxon_row where
  "allium_row = \<lparr> kingdom = ''Plantae'', taxonRank = ''genus'', family = ''Amaryllidaceae'',
                   scientificName = ''Allium'' \<rparr>"

definition allium_taxa :: InatPlantTaxa where
  "allium_taxa = InatPlantTaxa_init [allium_row]"

text \<open>
  A source table in which one species name has a tab, not a space, after the genus; and
  the object that the constructor builds from the one-token table.
\<close>

definition tab_iris :: string where
  "tab_iris = ''Iris'' @ [CHR 0x09] @ ''macrosiphon''"

definition tab_sheet :: worksheet where
  "tab_sheet =
     \<lparr> cell_value = (\<lambda>column row. map_of
         [((''A'', 6), ''Botanical Name''), ((''B'', 6), ''Common Name''),
          ((''AW'', 6), ''Plant Url''),
          ((''A'', 7), ''Iris douglasiana''), ((''B'', 7), ''Douglas Iris''),
          ((''AW'', 7), ''calscape.org/iris''),
          ((''A'', 8), tab_iris), ((''B'', 8), ''Bowltube Iris''),
          ((''AW'', 8), ''calscape.org/bowltube'')]
         (column, row)),
       max_row = 8 \<rparr>"

definition tab_species :: "cell list" where
  "tab_species = [Some ''Iris douglasiana'', Some tab_iris]"

definition tab_plants :: CalscapePlants where
  "tab_plants =
     \<lparr> genus_to_species = [''Iris'' \<mapsto> {''Iris douglasiana''}, tab_iris \<mapsto> {tab_iris}],
       species_to_url =
         [Some ''Iris douglasiana'' \<mapsto> Some ''calscape.org/iris'',
          Some tab_iris \<mapsto> Some ''calscape.org/bowltube''],
       species_to_common_name =
         [Some ''Iris douglasiana'' \<mapsto> Some ''Douglas Iris'',
          Some tab_iris \<mapsto> Some ''Bowltube Iris''] \<rparr>"

definition tab_start :: CalscapeGeophytes where
  "tab_start =
     \<lparr> calscape_plants = tab_plants, inat_taxa = example_taxa,
       calscape_genuses = {''Iris'', tab_iris},
       geophytes = {}, family_tree = Map.empty \<rparr>"

definition allium_geophytes :: CalscapeGeophytes where
  "allium_geophytes =
     \<lparr> calscape_plants = one_token_plants, inat_taxa = allium_taxa,
       calscape_genuses = {''Allium''}, geophytes = {''Allium''},
       family_tree = [''Amaryllidaceae'' \<mapsto> [''Allium'' \<mapsto> {''Allium''}]] \<rparr>"

section \<open>Genus derivation and the source table\<close>

lemma split_nonempty: "split sep x \<noteq> []"
  by (induction x) (auto split: list.splits)

lemma split_hd: "split sep x = takeWhile (\<lambda>c. c \<noteq> sep) x # tl (split sep x)"
  by (induction x) (auto split: list.splits simp: split_nonempty)

lemma first_token_takeWhile: "first_token x = Inr (takeWhile (\<lambda>c. c \<noteq> CHR '' '') x)"
  unfolding first_token_def by (subst split_hd) simp

lemma first_token_no_space: "CHR '' '' \<notin> set x \<Longrightarrow> first_token x = Inr x"
  by (auto simp: first_token_takeWhile)

lemma add_species_Inr:
  "add_species x m = Inr m' \<Longrightarrow>
     \<exists>s g. x = Some s \<and> first_token s = Inr g \<and> m' = m(g \<mapsto> insert s (case m g of None \<Rightarrow> {} | Some S \<Rightarrow> S))"
  by (auto simp: add_species_def split: option.splits sum.splits)

lemma index_species_Inr:
  "index_species xs m = Inr m' \<Longrightarrow>
     None \<notin> set xs \<and>
     (\<forall>g. m' g =
        (if \<exists>s. Some s \<in> set xs \<and> first_token s = Inr g
         then Some ((case m g of None \<Rightarrow> {} | Some S \<Rightarrow> S) \<union>
                    {s. Some s \<in> set xs \<and> first_token s = Inr g})
         else m g))"
proof (induction xs arbitrary: m m')
  case Nil
  then show ?case by simp
next
  case (Cons x xs)
  from Cons.prems obtain m1 where a: "add_species x m = Inr m1" and r: "index_species xs m1 = Inr m'"
    by (auto split: sum.splits)
  from add_species_Inr[OF a] obtain s g where x: "x = Some s" and g: "first_token s = Inr g"
    and m1: "\<And>h. m1 h = (if h = g then Some (insert s (case m g of None \<Rightarrow> {} | Some S \<Rightarrow> S)) else m h)"
    by auto
  from Cons.IH[OF r] have n: "None \<notin> set xs" and
    IH: "\<And>h. m' h =
        (if \<exists>s. Some s \<in> set xs \<and> first_token s = Inr h
         then Some ((case m1 h of None \<Rightarrow> {} | Some S \<Rightarrow> S) \<union>
                    {s. Some s \<in> set xs \<and> first_token s = Inr h})
         else m1 h)" by blast+
  show ?case
  proof (intro conjI allI)
    show "None \<notin> set (x # xs)" using n x by simp
    fix h
    show "m' h =
        (if \<exists>s. Some s \<in> set (x # xs) \<and> first_token s = Inr h
         then Some ((case m h of None \<Rightarrow> {} | Some S \<Rightarrow> S) \<union>
                    {s. Some s \<in> set (x # xs) \<and> first_token s = Inr h})
         else m h)"
      unfolding IH[of h] m1[of h] using x g by auto
  qed
qed

lemma index_species_finite:
  assumes "index_species xs m = Inr m'" "finite (dom m)" "\<forall>g S. m g = Some S \<longrightarrow> finite S"
  shows "finite (dom m') \<and> (\<forall>g S. m' g = Some S \<longrightarrow> finite S)"
proof -
  note I = index_species_Inr[OF assms(1)]
  let ?T = "{s. Some s \<in> set xs}"
  have fT: "finite ?T"
    by (rule finite_subset[of _ "the ` set xs"]) force+
  have "dom m' \<subseteq> dom m \<union> takeWhile (\<lambda>c. c \<noteq> CHR '' '') ` ?T"
  proof
    fix g assume g: "g \<in> dom m'"
    show "g \<in> dom m \<union> takeWhile (\<lambda>c. c \<noteq> CHR '' '') ` ?T"
    proof (cases "\<exists>s. Some s \<in> set xs \<and> first_token s = Inr g")
      case True
      then show ?thesis by (auto simp: first_token_takeWhile)
    next
      case False
      then have "m' g = m g" using I by auto
      then show ?thesis using g by (auto simp: dom_def)
    qed
  qed
  then have "finite (dom m')" using fT assms(2) by (meson finite_UnI finite_imageI finite_subset)
  moreover have "\<forall>g S. m' g = Some S \<longrightarrow> finite S"
  proof (intro allI impI)
    fix g S assume "m' g = Some S"
    then show "finite S" using I assms(3) fT
      by (auto split: if_splits option.splits)
  qed
  ultimately show ?thesis by blast
qed

lemma dom_dict: "dom (dict kvs m) = dom m \<union> fst ` set kvs"
proof (induction kvs arbitrary: m)
  case Nil
  then show ?case by simp
next
  case (Cons kv kvs)
  obtain k v where kv: "kv = (k, v)" by (cases kv)
  have "dom (dict (kv # kvs) m) = dom (dict kvs (m(k \<mapsto> v)))"
    using kv by simp
  also have "\<dots> = dom (m(k \<mapsto> v)) \<union> fst ` set kvs"
    by (rule Cons)
  finally show ?case using kv by simp
qed

lemma fst_set_zip: "length ys = length xs \<Longrightarrow> fst ` set (zip xs ys) = set xs"
  by (metis list.set_map map_fst_zip)

lemma get_column_length:
  "get_column sheet n r c = Inr xs \<Longrightarrow> length xs = max_row sheet - r"
  by (auto simp: get_column_def Let_def split: if_splits)

lemma CalscapePlants_init_Inr:
  assumes "CalscapePlants_init sheet = Inr plants"
  shows "\<exists>species. get_column sheet ''Botanical Name'' 6 ''A'' = Inr species \<and>
           None \<notin> set species \<and>
           genuses plants = {g. \<exists>s. Some s \<in> set species \<and> first_token s = Inr g} \<and>
           (\<forall>g. species_for_genus plants g = {s. Some s \<in> set species \<and> first_token s = Inr g}) \<and>
           dom (species_to_url plants) = set species \<and>
           dom (species_to_common_name plants) = set species"
proof -
  from assms obtain species common_names urls g2s where
    s: "get_column sheet ''Botanical Name'' 6 ''A'' = Inr species" and
    c: "get_column sheet ''Common Name'' 6 ''B'' = Inr common_names" and
    u: "get_column sheet ''Plant Url'' 6 ''AW'' = Inr urls" and
    i: "index_species species Map.empty = Inr g2s" and
    p: "genus_to_species plants = g2s"
       "species_to_url plants = dict (zip species urls) Map.empty"
       "species_to_common_name plants = dict (zip species common_names) Map.empty"
    by (auto simp: CalscapePlants_init_def split: sum.splits)
  have len: "length urls = length species" "length common_names = length species"
    using s c u by (simp_all add: get_column_length)
  from index_species_Inr[OF i] have n: "None \<notin> set species" and
    I: "\<And>g. g2s g = (if \<exists>s. Some s \<in> set species \<and> first_token s = Inr g
         then Some {s. Some s \<in> set species \<and> first_token s = Inr g} else None)"
    by simp_all
  have 1: "genuses plants = {g. \<exists>s. Some s \<in> set species \<and> first_token s = Inr g}"
    unfolding genuses_def p dom_def I by auto
  have 2: "species_for_genus plants g = {s. Some s \<in> set species \<and> first_token s = Inr g}" for g
    unfolding species_for_genus_def p I by auto
  have 3: "dom (species_to_url plants) = set species"
    unfolding p by (simp add: dom_dict fst_set_zip len)
  have 4: "dom (species_to_common_name plants) = set species"
    unfolding p by (simp add: dom_dict fst_set_zip len)
  show ?thesis using s n 1 2 3 4 by blast
qed

section \<open>The inclusion rules\<close>

lemma add_genus_each_geophytes:
  "geophytes (add_genus_each self gs) =
     geophytes self \<union> (\<Union>g\<in>set gs. species_for_genus (calscape_plants self) g)"
  "calscape_plants (add_genus_each self gs) = calscape_plants self"
  "inat_taxa (add_genus_each self gs) = inat_taxa self"
  "calscape_genuses (add_genus_each self gs) = calscape_genuses self"
  "family_tree (add_genus_each self gs) = family_tree self"
  by (induction self gs rule: add_genus_each.induct) (auto simp: add_genus_def)

lemma add_family_geophytes:
  assumes "finite (calscape_genuses self)"
  shows "geophytes (add_family self fam) =
     geophytes self \<union>
     (\<Union>g\<in>calscape_genuses self \<inter> genuses_for_family (inat_taxa self) fam.
        species_for_genus (calscape_plants self) g)"
  using assms by (simp add: add_family_def Let_def add_genus_each_geophytes)

lemma add_family_fields:
  "calscape_plants (add_family self fam) = calscape_plants self"
  "inat_taxa (add_family self fam) = inat_taxa self"
  "calscape_genuses (add_family self fam) = calscape_genuses self"
  "family_tree (add_family self fam) = family_tree self"
  by (simp_all add: add_family_def Let_def add_genus_each_geophytes)

lemma add_genus_fields:
  "calscape_plants (add_genus self g) = calscape_plants self"
  "inat_taxa (add_genus self g) = inat_taxa self"
  "calscape_genuses (add_genus self g) = calscape_genuses self"
  "family_tree (add_genus self g) = family_tree self"
  "geophytes (add_genus self g) = geophytes self \<union> species_for_genus (calscape_plants self) g"
  by (simp_all add: add_genus_def)

lemma select_geophytes_fields:
  "calscape_plants (select_geophytes plants taxa) = plants"
  "inat_taxa (select_geophytes plants taxa) = taxa"
  "calscape_genuses (select_geophytes plants taxa) = genuses plants"
  "family_tree (select_geophytes plants taxa) = Map.empty"
  by (simp_all add: select_geophytes_def Let_def add_family_fields add_genus_fields
        add_genus_each_geophytes)

lemma select_geophytes_geophytes:
  assumes "finite (genuses plants)"
  shows "geophytes (select_geophytes plants taxa) =
           (\<Union>g\<in>included_genuses plants taxa. species_for_genus plants g)"
  using assms
  by (simp add: select_geophytes_def Let_def add_family_geophytes add_family_fields
        add_genus_fields add_genus_each_geophytes included_genuses_def)
     blast

lemma CalscapePlants_init_finite:
  assumes "CalscapePlants_init sheet = Inr plants"
  shows "finite (genuses plants)" "finite (species_for_genus plants g)"
proof -
  from assms obtain species g2s where
    i: "index_species species Map.empty = Inr g2s" and
    p: "genus_to_species plants = g2s"
    by (auto simp: CalscapePlants_init_def split: sum.splits)
  from index_species_finite[OF i] have f: "finite (dom g2s)" "\<And>g S. g2s g = Some S \<Longrightarrow> finite S"
    by auto
  show "finite (genuses plants)" using f p by (simp add: genuses_def)
  show "finite (species_for_genus plants g)"
    using f(2)[of g] p by (auto simp: species_for_genus_def split: option.splits)
qed

lemma species_for_genus_empty:
  assumes "CalscapePlants_init sheet = Inr plants" "g \<notin> genuses plants"
  shows "species_for_genus plants g = {}"
  using assms(2) by (auto simp: genuses_def species_for_genus_def dom_def split: option.splits)

lemma select_geophytes_finite:
  assumes "CalscapePlants_init sheet = Inr plants"
  shows "finite (geophytes (select_geophytes plants taxa))"
proof -
  note f = CalscapePlants_init_finite[OF assms]
  have "geophytes (select_geophytes plants taxa) \<subseteq> (\<Union>g\<in>genuses plants. species_for_genus plants g)"
    unfolding select_geophytes_geophytes[OF f(1)]
    using species_for_genus_empty[OF assms] by blast
  moreover have "finite (\<Union>g\<in>genuses plants. species_for_genus plants g)"
    using f by blast
  ultimately show ?thesis by (rule finite_subset)
qed

section \<open>Building the family tree\<close>

lemma tree_cell_tree_add:
  "tree_cell (tree_add t f g s) f' g' =
     (if f' = f \<and> g' = g then insert s (tree_cell t f g) else tree_cell t f' g')"
  by (auto simp: tree_cell_def tree_add_def Let_def split: option.splits)

lemma tree_finite_empty: "tree_finite Map.empty"
  by (simp add: tree_finite_def)

lemma tree_finite_tree_add: "tree_finite t \<Longrightarrow> tree_finite (tree_add t f g s)"
  unfolding tree_finite_def tree_add_def Let_def
  by (auto split: option.splits if_splits)

lemma place_species_Inr:
  "place_species taxa s t = Inr t' \<Longrightarrow>
     \<exists>g f. first_token s = Inr g \<and> genus_to_family taxa g = Some f \<and> t' = tree_add t f g s"
  by (auto simp: place_species_def family_for_genus_def split: sum.splits option.splits)

lemma place_species_Inl:
  "place_species taxa s t = Inl e \<Longrightarrow>
     e = KeyError \<and> (\<exists>g. first_token s = Inr g \<and> genus_to_family taxa g = None)"
  by (auto simp: place_species_def family_for_genus_def first_token_takeWhile
           split: sum.splits option.splits)

lemma mapped_iff: "mapped taxa s \<longleftrightarrow> (\<exists>g f. first_token s = Inr g \<and> genus_to_family taxa g = Some f)"
  by (auto simp: mapped_def family_for_genus_def split: option.splits)

lemma place_species_mapped:
  "mapped taxa s \<Longrightarrow> \<exists>t'. place_species taxa s t = Inr t'"
  by (auto simp: mapped_iff place_species_def family_for_genus_def)

lemma build_family_tree_Inr:
  "build_family_tree taxa xs t = Inr t' \<Longrightarrow>
     (\<forall>s\<in>set xs. mapped taxa s) \<and>
     (tree_finite t \<longrightarrow> tree_finite t') \<and>
     (\<forall>f g. tree_cell t' f g =
        tree_cell t f g \<union>
        {s \<in> set xs. first_token s = Inr g \<and> genus_to_family taxa g = Some f})"
proof (induction xs arbitrary: t)
  case Nil
  then show ?case by simp
next
  case (Cons x xs)
  from Cons.prems obtain t1 where p: "place_species taxa x t = Inr t1"
    and r: "build_family_tree taxa xs t1 = Inr t'"
    by (auto split: sum.splits)
  from place_species_Inr[OF p] obtain g0 f0 where
    g0: "first_token x = Inr g0" and f0: "genus_to_family taxa g0 = Some f0"
    and t1: "t1 = tree_add t f0 g0 x" by blast
  from Cons.IH[OF r] have
    m: "\<forall>s\<in>set xs. mapped taxa s" and
    fin: "tree_finite t1 \<longrightarrow> tree_finite t'" and
    c: "\<And>f g. tree_cell t' f g =
        tree_cell t1 f g \<union> {s \<in> set xs. first_token s = Inr g \<and> genus_to_family taxa g = Some f}"
    by blast+
  have mx: "mapped taxa x" using g0 f0 by (auto simp: mapped_iff)
  show ?case
  proof (intro conjI allI)
    show "\<forall>s\<in>set (x # xs). mapped taxa s" using m mx by simp
    show "tree_finite t \<longrightarrow> tree_finite t'"
      using fin tree_finite_tree_add[of t f0 g0 x] by (simp add: t1)
    fix f g
    show "tree_cell t' f g =
        tree_cell t f g \<union>
        {s \<in> set (x # xs). first_token s = Inr g \<and> genus_to_family taxa g = Some f}"
      unfolding c[of f g] t1 tree_cell_tree_add using g0 f0 by auto
  qed
qed

lemma build_family_tree_Inl:
  "build_family_tree taxa xs t = Inl e \<Longrightarrow> e = KeyError \<and> (\<exists>s\<in>set xs. \<not> mapped taxa s)"
proof (induction xs arbitrary: t)
  case Nil
  then show ?case by simp
next
  case (Cons x xs)
  show ?case
  proof (cases "place_species taxa x t")
    case (Inl e')
    with Cons.prems have "e' = e" by simp
    with place_species_Inl[OF Inl] show ?thesis by (auto simp: mapped_iff)
  next
    case (Inr t1)
    with Cons.prems have "build_family_tree taxa xs t1 = Inl e" by simp
    from Cons.IH[OF this] show ?thesis by auto
  qed
qed

lemma build_family_tree_total:
  "\<forall>s\<in>set xs. mapped taxa s \<Longrightarrow> \<exists>t'. build_family_tree taxa xs t = Inr t'"
proof (cases "build_family_tree taxa xs t")
  case (Inl e)
  assume "\<forall>s\<in>set xs. mapped taxa s"
  with build_family_tree_Inl[OF Inl] show ?thesis by blast
next
  case (Inr t')
  then show ?thesis by blast
qed

section \<open>The constructed object\<close>

lemma set_sorted_list_of_set_subset: "set (sorted_list_of_set A) \<subseteq> A"
  by (cases "finite A") simp_all

lemma CalscapeGeophytes_init_Inr:
  assumes "CalscapeGeophytes_init plants taxa = Inr self"
  shows "calscape_plants self = plants" "inat_taxa self = taxa"
    "calscape_genuses self = genuses plants"
    "geophytes self = geophytes (select_geophytes plants taxa)"
    "build_family_tree taxa (sorted_list_of_set (geophytes self)) Map.empty = Inr (family_tree self)"
  using assms
  by (auto simp: CalscapeGeophytes_init_def Let_def select_geophytes_fields split: sum.splits)

lemma tree_cell_empty: "tree_cell Map.empty f g = {}"
  by (simp add: tree_cell_def)

lemma CalscapeGeophytes_init_cell_subset:
  assumes "CalscapeGeophytes_init plants taxa = Inr self"
  shows "tree_cell (family_tree self) f g \<subseteq> geophytes self"
proof -
  note b = build_family_tree_Inr[OF CalscapeGeophytes_init_Inr(5)[OF assms]]
  from b have "tree_cell (family_tree self) f g \<subseteq> set (sorted_list_of_set (geophytes self))"
    by (auto simp: tree_cell_empty)
  then show ?thesis using set_sorted_list_of_set_subset by blast
qed

lemma CalscapeGeophytes_init_tree:
  assumes "CalscapePlants_init sheet = Inr plants"
    and "CalscapeGeophytes_init plants taxa = Inr self"
  shows "finite (geophytes self)"
    "\<forall>s\<in>geophytes self. mapped taxa s"
    "tree_finite (family_tree self)"
    "tree_cell (family_tree self) f g =
       {s \<in> geophytes self. first_token s = Inr g \<and> genus_to_family taxa g = Some f}"
proof -
  note i = CalscapeGeophytes_init_Inr[OF assms(2)]
  show fin: "finite (geophytes self)"
    using select_geophytes_finite[OF assms(1)] i(4) by simp
  note b = build_family_tree_Inr[OF i(5)]
  show "\<forall>s\<in>geophytes self. mapped taxa s" using b fin by simp
  show "tree_finite (family_tree self)" using b tree_finite_empty by blast
  show "tree_cell (family_tree self) f g =
       {s \<in> geophytes self. first_token s = Inr g \<and> genus_to_family taxa g = Some f}"
    using b fin by (simp add: tree_cell_empty)
qed

lemma CalscapeGeophytes_init_cases:
  assumes "CalscapePlants_init sheet = Inr plants"
  shows "CalscapeGeophytes_init plants taxa =
     (if \<forall>s\<in>geophytes (select_geophytes plants taxa). mapped taxa s
      then CalscapeGeophytes_init plants taxa else Inl KeyError)"
    "(\<forall>s\<in>geophytes (select_geophytes plants taxa). mapped taxa s) \<Longrightarrow>
     \<exists>self. CalscapeGeophytes_init plants taxa = Inr self"
proof -
  let ?G = "geophytes (select_geophytes plants taxa)"
  have fin: "finite ?G" by (rule select_geophytes_finite[OF assms])
  show "CalscapeGeophytes_init plants taxa =
     (if \<forall>s\<in>?G. mapped taxa s then CalscapeGeophytes_init plants taxa else Inl KeyError)"
  proof (cases "\<forall>s\<in>?G. mapped taxa s")
    case True
    then show ?thesis by simp
  next
    case False
    have "\<exists>e. build_family_tree taxa (sorted_list_of_set ?G) Map.empty = Inl e"
    proof (cases "build_family_tree taxa (sorted_list_of_set ?G) Map.empty")
      case (Inl e)
      then show ?thesis by blast
    next
      case (Inr t)
      from build_family_tree_Inr[OF Inr] fin False show ?thesis by simp
    qed
    then obtain e where e: "build_family_tree taxa (sorted_list_of_set ?G) Map.empty = Inl e" ..
    from build_family_tree_Inl[OF e] have "e = KeyError" by simp
    with e False show ?thesis by (simp add: CalscapeGeophytes_init_def Let_def)
  qed
  assume "\<forall>s\<in>?G. mapped taxa s"
  then have "\<forall>s\<in>set (sorted_list_of_set ?G). mapped taxa s" using fin by simp
  from build_family_tree_total[OF this, of Map.empty]
  obtain t where "build_family_tree taxa (sorted_list_of_set ?G) Map.empty = Inr t" ..
  then show "\<exists>self. CalscapeGeophytes_init plants taxa = Inr self"
    by (simp add: CalscapeGeophytes_init_def Let_def)
qed

section \<open>The rows of the report\<close>

lemma rows_found_append: "rows_found p (xs @ ys) \<longleftrightarrow> rows_found p xs \<and> rows_found p ys"
  by (auto simp: rows_found_def)

lemma species_rows_Inr:
  "species_rows plants ex fam genus names rows = Inr out \<Longrightarrow>
     \<exists>new. out = rows @ new \<and>
       map row_key new = map (\<lambda>name. (fam, genus, name)) (filter (keep ex) names) \<and>
       rows_found plants new"
proof (induction names arbitrary: rows)
  case Nil
  then show ?case by (simp add: rows_found_def)
next
  case (Cons name rest)
  show ?case
  proof (cases "ex \<and> cultivar_marker \<in> set name")
    case True
    with Cons.prems have "species_rows plants ex fam genus rest rows = Inr out" by simp
    from Cons.IH[OF this] True show ?thesis by (simp add: keep_def)
  next
    case False
    with Cons.prems obtain cn u where
      cn: "common_name_for_species plants name = Inr cn" and
      u: "url_for_species plants name = Inr u" and
      r: "species_rows plants ex fam genus rest
            (rows @ [\<lparr> row_family = fam, row_genus = genus, row_species = name,
                       row_common_name = cn, row_url = u \<rparr>]) = Inr out"
      by (auto split: sum.splits)
    let ?r = "\<lparr> row_family = fam, row_genus = genus, row_species = name,
                       row_common_name = cn, row_url = u \<rparr>"
    from Cons.IH[OF r] obtain new where
      o: "out = (rows @ [?r]) @ new" and
      k: "map row_key new = map (\<lambda>name. (fam, genus, name)) (filter (keep ex) rest)" and
      f: "rows_found plants new" by blast
    have "out = rows @ (?r # new)" using o by simp
    moreover have "map row_key (?r # new) =
        map (\<lambda>name. (fam, genus, name)) (filter (keep ex) (name # rest))"
      using k False by (simp add: keep_def row_key_def)
    moreover have "rows_found plants (?r # new)"
      using f cn u by (simp add: rows_found_def)
    ultimately show ?thesis by blast
  qed
qed

lemma genus_rows_Inr:
  "genus_rows self ex fam gs rows = Inr out \<Longrightarrow>
     \<exists>new. out = rows @ new \<and>
       map row_key new = concat (map (genus_keys (family_tree self) ex fam) gs) \<and>
       rows_found (calscape_plants self) new"
proof (induction gs arbitrary: rows)
  case Nil
  then show ?case by (simp add: rows_found_def)
next
  case (Cons g rest)
  from Cons.prems obtain rows1 where
    s: "species_rows (calscape_plants self) ex fam g
          (sorted_list_of_set (tree_cell (family_tree self) fam g)) rows = Inr rows1" and
    r: "genus_rows self ex fam rest rows1 = Inr out"
    by (auto simp: Let_def split: sum.splits)
  from species_rows_Inr[OF s] obtain new1 where
    n1: "rows1 = rows @ new1" "map row_key new1 = genus_keys (family_tree self) ex fam g"
       "rows_found (calscape_plants self) new1"
    by (auto simp: genus_keys_def)
  from Cons.IH[OF r] obtain new2 where
    n2: "out = rows1 @ new2"
       "map row_key new2 = concat (map (genus_keys (family_tree self) ex fam) rest)"
       "rows_found (calscape_plants self) new2" by blast
  have "out = rows @ (new1 @ new2)" using n1 n2 by simp
  moreover have "map row_key (new1 @ new2) =
      concat (map (genus_keys (family_tree self) ex fam) (g # rest))"
    using n1 n2 by simp
  moreover have "rows_found (calscape_plants self) (new1 @ new2)"
    using n1 n2 by (simp add: rows_found_append)
  ultimately show ?case by blast
qed

lemma family_rows_Inr:
  "family_rows self ex fams rows = Inr out \<Longrightarrow>
     \<exists>new. out = rows @ new \<and>
       map row_key new = concat (map (family_keys (family_tree self) ex) fams) \<and>
       rows_found (calscape_plants self) new"
proof (induction fams arbitrary: rows)
  case Nil
  then show ?case by (simp add: rows_found_def)
next
  case (Cons f rest)
  let ?gs = "sorted_list_of_set
            (dom (case family_tree self f of None \<Rightarrow> Map.empty | Some inner \<Rightarrow> inner))"
  from Cons.prems obtain rows1 where
    s: "genus_rows self ex f ?gs rows = Inr rows1" and
    r: "family_rows self ex rest rows1 = Inr out"
    by (auto simp: Let_def split: sum.splits)
  from genus_rows_Inr[OF s] obtain new1 where
    n1: "rows1 = rows @ new1" "map row_key new1 = family_keys (family_tree self) ex f"
       "rows_found (calscape_plants self) new1"
    by (auto simp: family_keys_def)
  from Cons.IH[OF r] obtain new2 where
    n2: "out = rows1 @ new2"
       "map row_key new2 = concat (map (family_keys (family_tree self) ex) rest)"
       "rows_found (calscape_plants self) new2" by blast
  have "out = rows @ (new1 @ new2)" using n1 n2 by simp
  moreover have "map row_key (new1 @ new2) =
      concat (map (family_keys (family_tree self) ex) (f # rest))"
    using n1 n2 by simp
  moreover have "rows_found (calscape_plants self) (new1 @ new2)"
    using n1 n2 by (simp add: rows_found_append)
  ultimately show ?case by blast
qed

lemma csv_rows_Inr:
  assumes "csv_rows self ex = Inr rows"
  shows "map row_key rows = tree_keys (family_tree self) ex"
    "rows_found (calscape_plants self) rows"
  using family_rows_Inr[of self ex _ "[]" rows] assms
  by (auto simp: csv_rows_def Let_def tree_keys_def)

lemma sorted_wrt_concat_map:
  assumes "sorted_wrt (<) xs"
    and "\<And>x. sorted_wrt R (F x)"
    and "\<And>x y a b. x < y \<Longrightarrow> a \<in> set (F x) \<Longrightarrow> b \<in> set (F y) \<Longrightarrow> R a b"
  shows "sorted_wrt R (concat (map F xs))"
  using assms(1)
proof (induction xs)
  case Nil
  then show ?case by simp
next
  case (Cons x xs)
  have "sorted_wrt R (concat (map F xs))"
    using Cons by simp
  moreover have "\<forall>a\<in>set (F x). \<forall>b\<in>set (concat (map F xs)). R a b"
    using Cons.prems assms(3) by auto
  ultimately show ?case using assms(2) by (simp add: sorted_wrt_append)
qed

lemma genus_keys_sorted: "sorted_wrt (<) (genus_keys t ex fam genus)"
proof -
  have "sorted_wrt (<) (filter (keep ex) (sorted_list_of_set (tree_cell t fam genus)))"
    by (intro sorted_wrt_filter) simp
  then show ?thesis
    by (simp add: genus_keys_def sorted_wrt_map)
qed

lemma genus_keys_elem:
  "k \<in> set (genus_keys t ex fam genus) \<Longrightarrow>
     fst k = fam \<and> fst (snd k) = genus \<and> keep ex (snd (snd k)) \<and>
     snd (snd k) \<in> tree_cell t fam genus"
  using set_sorted_list_of_set_subset[of "tree_cell t fam genus"]
  by (auto simp: genus_keys_def)

lemma family_keys_elem:
  "k \<in> set (family_keys t ex fam) \<Longrightarrow>
     fst k = fam \<and> keep ex (snd (snd k)) \<and> snd (snd k) \<in> tree_cell t fam (fst (snd k))"
  using genus_keys_elem by (fastforce simp: family_keys_def)

lemma tree_keys_elem:
  "k \<in> set (tree_keys t ex) \<Longrightarrow>
     keep ex (snd (snd k)) \<and> snd (snd k) \<in> tree_cell t (fst k) (fst (snd k))"
  using family_keys_elem by (fastforce simp: tree_keys_def)

lemma family_keys_sorted: "sorted_wrt (<) (family_keys t ex fam)"
  unfolding family_keys_def
proof (rule sorted_wrt_concat_map)
  show "sorted_wrt (<) (sorted_list_of_set (dom (case t fam of None \<Rightarrow> Map.empty | Some inner \<Rightarrow> inner)))"
    by simp
  show "sorted_wrt (<) (genus_keys t ex fam x)" for x by (rule genus_keys_sorted)
  show "a < b" if "x < y" "a \<in> set (genus_keys t ex fam x)" "b \<in> set (genus_keys t ex fam y)"
    for x y a b
    using genus_keys_elem[OF that(2)] genus_keys_elem[OF that(3)] that(1)
    by (cases a, cases b) (auto simp: less_prod_def)
qed

lemma tree_keys_sorted: "sorted_wrt (<) (tree_keys t ex)"
  unfolding tree_keys_def
proof (rule sorted_wrt_concat_map)
  show "sorted_wrt (<) (sorted_list_of_set (dom t))" by simp
  show "sorted_wrt (<) (family_keys t ex x)" for x by (rule family_keys_sorted)
  show "a < b" if "x < y" "a \<in> set (family_keys t ex x)" "b \<in> set (family_keys t ex y)"
    for x y a b
    using family_keys_elem[OF that(2)] family_keys_elem[OF that(3)] that(1)
    by (cases a, cases b) (auto simp: less_prod_def)
qed

lemma row_before_iff: "row_before r1 r2 \<longleftrightarrow> row_key r1 < row_key r2"
  by (auto simp: row_before_def row_key_def less_prod_def)

section \<open>Lookups and counts\<close>

lemma species_rows_total:
  "\<forall>n\<in>set names. keep ex n \<longrightarrow> found plants n \<Longrightarrow>
     \<exists>out. species_rows plants ex fam genus names rows = Inr out"
proof (induction names arbitrary: rows)
  case Nil
  then show ?case by simp
next
  case (Cons name rest)
  then show ?case by (auto simp: keep_def found_def)
qed

lemma genus_rows_total:
  assumes "\<And>g n. n \<in> tree_cell (family_tree self) fam g \<Longrightarrow> keep ex n \<Longrightarrow>
             found (calscape_plants self) n"
  shows "\<exists>out. genus_rows self ex fam gs rows = Inr out"
proof (induction gs arbitrary: rows)
  case Nil
  then show ?case by simp
next
  case (Cons g rest)
  have "\<forall>n\<in>set (sorted_list_of_set (tree_cell (family_tree self) fam g)).
          keep ex n \<longrightarrow> found (calscape_plants self) n"
    using assms set_sorted_list_of_set_subset by blast
  from species_rows_total[OF this] obtain rows1 where
    "species_rows (calscape_plants self) ex fam g
       (sorted_list_of_set (tree_cell (family_tree self) fam g)) rows = Inr rows1" by blast
  moreover from Cons obtain out where "genus_rows self ex fam rest rows1 = Inr out" by blast
  ultimately show ?case by (simp add: Let_def)
qed

lemma family_rows_total:
  assumes "\<And>f g n. n \<in> tree_cell (family_tree self) f g \<Longrightarrow> keep ex n \<Longrightarrow>
             found (calscape_plants self) n"
  shows "\<exists>out. family_rows self ex fams rows = Inr out"
proof (induction fams arbitrary: rows)
  case Nil
  then show ?case by simp
next
  case (Cons f rest)
  from genus_rows_total[of self f ex] assms obtain rows1 where
    "genus_rows self ex f (sorted_list_of_set
            (dom (case family_tree self f of None \<Rightarrow> Map.empty | Some inner \<Rightarrow> inner))) rows
       = Inr rows1" by blast
  moreover from Cons obtain out where "family_rows self ex rest rows1 = Inr out" by blast
  ultimately show ?case by (simp add: Let_def)
qed

lemma csv_rows_total:
  assumes "\<And>f g n. n \<in> tree_cell (family_tree self) f g \<Longrightarrow> keep ex n \<Longrightarrow>
             found (calscape_plants self) n"
  shows "\<exists>rows. csv_rows self ex = Inr rows"
  using family_rows_total[of self ex] assms by (simp add: csv_rows_def Let_def)

lemma csv_rows_all_skipped:
  assumes "\<And>f g n. n \<in> tree_cell (family_tree self) f g \<Longrightarrow> \<not> keep ex n"
  shows "csv_rows self ex = Inr []"
proof -
  from csv_rows_total[of self ex] assms obtain rows where r: "csv_rows self ex = Inr rows"
    by blast
  have "k \<notin> set (tree_keys (family_tree self) ex)" for k
    using tree_keys_elem[of k "family_tree self" ex] assms by blast
  then have "tree_keys (family_tree self) ex = []"
    by (cases "tree_keys (family_tree self) ex") auto
  then have "map row_key rows = []" using csv_rows_Inr(1)[OF r] by simp
  then show ?thesis using r by simp
qed

lemma found_iff:
  "found plants name \<longleftrightarrow>
     Some name \<in> dom (species_to_common_name plants) \<and> Some name \<in> dom (species_to_url plants)"
  by (auto simp: found_def common_name_for_species_def url_for_species_def split: option.splits)

lemma geophytes_in_source:
  assumes "CalscapePlants_init sheet = Inr plants"
    and "get_column sheet ''Botanical Name'' 6 ''A'' = Inr species"
  shows "geophytes (select_geophytes plants taxa) \<subseteq> {s. Some s \<in> set species}"
proof -
  from CalscapePlants_init_Inr[OF assms(1)] assms(2)
  have s: "\<And>g. species_for_genus plants g = {s. Some s \<in> set species \<and> first_token s = Inr g}"
    by auto
  show ?thesis
    unfolding select_geophytes_geophytes[OF CalscapePlants_init_finite(1)[OF assms(1)]]
    using s by auto
qed

lemma geophytes_found:
  assumes "CalscapePlants_init sheet = Inr plants"
    and "s \<in> geophytes (select_geophytes plants taxa)"
  shows "found plants s"
proof -
  from CalscapePlants_init_Inr[OF assms(1)] obtain species where
    c: "get_column sheet ''Botanical Name'' 6 ''A'' = Inr species"
    and d: "dom (species_to_url plants) = set species"
           "dom (species_to_common_name plants) = set species" by blast
  from geophytes_in_source[OF assms(1) c] assms(2) have "Some s \<in> set species" by blast
  then show ?thesis using d by (simp add: found_iff)
qed

lemma tree_keys_set:
  assumes "tree_finite t"
  shows "set (tree_keys t ex) = {(f, g, n). n \<in> tree_cell t f g \<and> keep ex n}"
proof (intro set_eqI iffI)
  fix k assume "k \<in> set (tree_keys t ex)"
  from tree_keys_elem[OF this] show "k \<in> {(f, g, n). n \<in> tree_cell t f g \<and> keep ex n}"
    by (cases k) auto
next
  fix k assume k: "k \<in> {(f, g, n). n \<in> tree_cell t f g \<and> keep ex n}"
  obtain f g n where kk: "k = (f, g, n)" by (cases k) auto
  from k kk have n: "n \<in> tree_cell t f g" and kp: "keep ex n" by auto
  from n obtain i S where i: "t f = Some i" and S: "i g = Some S" and nS: "n \<in> S"
    by (auto simp: tree_cell_def split: option.splits)
  from assms i S have fin: "finite (dom t)" "finite (dom i)" "finite S"
    unfolding tree_finite_def by blast+
  have c: "tree_cell t f g = S" using i S by (simp add: tree_cell_def)
  have "(f, g, n) \<in> set (genus_keys t ex f g)"
    using nS kp fin(3) by (simp add: genus_keys_def c)
  moreover have "g \<in> set (sorted_list_of_set (dom i))" using S fin(2) by auto
  ultimately have "(f, g, n) \<in> set (family_keys t ex f)"
    using i by (auto simp: family_keys_def)
  moreover have "f \<in> set (sorted_list_of_set (dom t))" using i fin(1) by auto
  ultimately show "k \<in> set (tree_keys t ex)"
    unfolding kk tree_keys_def by auto
qed

lemma tree_keys_length:
  assumes "CalscapePlants_init sheet = Inr plants"
    and "CalscapeGeophytes_init plants taxa = Inr self"
  shows "length (tree_keys (family_tree self) ex) = card {n \<in> geophytes self. keep ex n}"
proof -
  let ?t = "family_tree self"
  let ?K = "set (tree_keys ?t ex)"
  note T = CalscapeGeophytes_init_tree[OF assms]
  have K: "?K = {(f, g, n). n \<in> tree_cell ?t f g \<and> keep ex n}"
    by (rule tree_keys_set[OF T(3)])
  have d: "distinct (tree_keys ?t ex)"
    using tree_keys_sorted[of ?t ex] strict_sorted_iff by blast
  have inj: "inj_on (\<lambda>k. snd (snd k)) ?K"
  proof (rule inj_onI)
    fix a b assume a: "a \<in> ?K" and b: "b \<in> ?K" and e: "snd (snd a) = snd (snd b)"
    obtain f g n where aa: "a = (f, g, n)" by (cases a) auto
    obtain f' g' n' where bb: "b = (f', g', n')" by (cases b) auto
    from a b aa bb K have "n \<in> tree_cell ?t f g" "n' \<in> tree_cell ?t f' g'" by auto
    with e aa bb show "a = b" unfolding T(4) by auto
  qed
  have img: "(\<lambda>k. snd (snd k)) ` ?K = {n \<in> geophytes self. keep ex n}"
  proof (intro set_eqI iffI)
    fix n assume "n \<in> (\<lambda>k. snd (snd k)) ` ?K"
    then show "n \<in> {n \<in> geophytes self. keep ex n}" unfolding K T(4) by auto
  next
    fix n assume n: "n \<in> {n \<in> geophytes self. keep ex n}"
    with T(2) obtain g f where "first_token n = Inr g" "genus_to_family taxa g = Some f"
      by (auto simp: mapped_iff)
    with n have "(f, g, n) \<in> ?K" unfolding K T(4) by simp
    then show "n \<in> (\<lambda>k. snd (snd k)) ` ?K" by force
  qed
  have "length (tree_keys ?t ex) = card ?K" using d by (simp add: distinct_card)
  also have "\<dots> = card ((\<lambda>k. snd (snd k)) ` ?K)" using inj by (simp add: card_image)
  finally show ?thesis using img by simp
qed

lemma sum_list_ones: "sum_list (map (\<lambda>x. Suc 0) xs) = length xs"
  by (induction xs) simp_all

lemma print_summary_counts:
  assumes "finite (geophytes self)"
  shows "num_geophytes (print_summary self) = card (geophytes self)"
    "num_no_cultivars (print_summary self) = card {n \<in> geophytes self. keep True n}"
proof -
  show "num_geophytes (print_summary self) = card (geophytes self)"
    by (simp add: print_summary_def)
  let ?xs = "filter (\<lambda>x. cultivar_marker \<notin> set x) (sorted_list_of_set (geophytes self))"
  have "distinct ?xs" by simp
  then have "card (set ?xs) = length ?xs" by (rule distinct_card)
  moreover have "set ?xs = {n \<in> geophytes self. keep True n}"
    using assms by (auto simp: keep_def)
  ultimately have "length ?xs = card {n \<in> geophytes self. keep True n}" by simp
  then show "num_no_cultivars (print_summary self) = card {n \<in> geophytes self. keep True n}"
    by (simp add: print_summary_def sum_list_ones)
qed

section \<open>The taxonomy indexes\<close>

lemma read_taxa_genuses_for_family:
  "genuses_for_family (read_taxa rows self) F =
     genuses_for_family self F \<union>
     {scientificName r | r. r \<in> set rows \<and> is_plant_genus r \<and> family r = F}"
proof (induction rows arbitrary: self)
  case Nil
  then show ?case by simp
next
  case (Cons row rows)
  have "genuses_for_family (add_taxon row self) F =
          genuses_for_family self F \<union>
          (if is_plant_genus row \<and> family row = F then {scientificName row} else {})"
    by (auto simp: add_taxon_def genuses_for_family_def is_plant_genus_def split: option.splits)
  then show ?case unfolding read_taxa.simps Cons.IH[of "add_taxon row self"] by auto
qed

lemma read_taxa_genus_to_family:
  "genus_to_family (read_taxa rows self) g =
     (case filter (\<lambda>r. is_plant_genus r \<and> scientificName r = g) rows of
        [] \<Rightarrow> genus_to_family self g
      | r # rs \<Rightarrow> Some (family (last (r # rs))))"
proof (induction rows arbitrary: self)
  case Nil
  then show ?case by simp
next
  case (Cons row rows)
  have a: "genus_to_family (add_taxon row self) g =
          (if is_plant_genus row \<and> scientificName row = g then Some (family row)
           else genus_to_family self g)"
    by (simp add: add_taxon_def is_plant_genus_def)
  show ?case unfolding read_taxa.simps Cons.IH[of "add_taxon row self"] a
    by (auto split: list.splits)
qed

lemma InatPlantTaxa_init_genuses_for_family:
  "genuses_for_family (InatPlantTaxa_init rows) F =
     {scientificName r | r. r \<in> set rows \<and> is_plant_genus r \<and> family r = F}"
  unfolding InatPlantTaxa_init_def read_taxa_genuses_for_family
  by (simp add: genuses_for_family_def)

lemma InatPlantTaxa_init_family_for_genus:
  "family_for_genus (InatPlantTaxa_init rows) g =
     (case filter (\<lambda>r. is_plant_genus r \<and> scientificName r = g) rows of
        [] \<Rightarrow> Inl KeyError
      | r # rs \<Rightarrow> Inr (family (last (r # rs))))"
  unfolding InatPlantTaxa_init_def family_for_genus_def read_taxa_genus_to_family
  by (simp split: list.splits)

lemma family_for_genus_in_genuses_for_family:
  assumes "family_for_genus (InatPlantTaxa_init rows) g = Inr F"
  shows "g \<in> genuses_for_family (InatPlantTaxa_init rows) F"
proof -
  let ?rs = "filter (\<lambda>r. is_plant_genus r \<and> scientificName r = g) rows"
  from assms have ne: "?rs \<noteq> []" and F: "F = family (last ?rs)"
    unfolding InatPlantTaxa_init_family_for_genus by (auto split: list.splits)
  define l where "l = last ?rs"
  from ne have "l \<in> set ?rs" unfolding l_def by (rule last_in_set)
  then have "l \<in> set rows \<and> is_plant_genus l \<and> family l = F" "g = scientificName l"
    using F by (auto simp: l_def)
  then show ?thesis unfolding InatPlantTaxa_init_genuses_for_family by blast
qed

lemma genuses_for_family_consistent:
  assumes "\<forall>r1\<in>set rows. \<forall>r2\<in>set rows.
             is_plant_genus r1 \<and> is_plant_genus r2 \<and> scientificName r1 = scientificName r2
               \<longrightarrow> family r1 = family r2"
    and "g \<in> genuses_for_family (InatPlantTaxa_init rows) F"
  shows "family_for_genus (InatPlantTaxa_init rows) g = Inr F"
proof -
  let ?rs = "filter (\<lambda>r. is_plant_genus r \<and> scientificName r = g) rows"
  from assms(2) obtain r where r: "r \<in> set rows" "is_plant_genus r" "family r = F"
    "scientificName r = g"
    unfolding InatPlantTaxa_init_genuses_for_family by blast
  then have ne: "?rs \<noteq> []" by (auto simp: filter_empty_conv)
  then have "last ?rs \<in> set ?rs" by (rule last_in_set)
  then have l: "last ?rs \<in> set rows" "is_plant_genus (last ?rs)" "scientificName (last ?rs) = g"
    by auto
  with assms(1) r have "family (last ?rs) = F" by blast
  with ne show ?thesis
    unfolding InatPlantTaxa_init_family_for_genus by (auto split: list.splits)
qed

section \<open>The worked examples, evaluated\<close>

lemma example_columns:
  "get_column example_sheet ''Botanical Name'' 6 ''A'' = Inr example_species"
  "get_column example_sheet ''Common Name'' 6 ''B'' =
     Inr [Some ''Douglas Iris'', Some ''Orion Camas'', Some ''Coast Live Oak'']"
  "get_column example_sheet ''Plant Url'' 6 ''AW'' =
     Inr [Some ''calscape.org/iris'', Some ''calscape.org/camassia'',
          Some ''calscape.org/quercus'']"
  by (simp_all add: get_column_def example_sheet_def example_species_def Let_def upt_rec)

lemma example_tokens:
  "first_token ''Iris douglasiana'' = Inr ''Iris''"
  "first_token orion = Inr ''Camassia''"
  "first_token ''Quercus agrifolia'' = Inr ''Quercus''"
  by (simp_all add: first_token_takeWhile orion_def)

lemma example_plants_init: "CalscapePlants_init example_sheet = Inr example_plants"
  by (simp add: CalscapePlants_init_def example_columns example_species_def add_species_def
        example_tokens example_plants_def)

lemma empty_plants_init: "CalscapePlants_init empty_sheet = Inr empty_plants"
  by (simp add: CalscapePlants_init_def get_column_def empty_sheet_def Let_def
        empty_plants_def)

lemma one_token_columns:
  "get_column one_token_sheet ''Botanical Name'' 6 ''A'' = Inr [Some ''Allium'']"
  "get_column one_token_sheet ''Common Name'' 6 ''B'' = Inr [Some ''Wild Onion'']"
  "get_column one_token_sheet ''Plant Url'' 6 ''AW'' = Inr [Some ''calscape.org/allium'']"
  by (simp_all add: get_column_def one_token_sheet_def Let_def upt_rec)

lemma one_token_plants_init: "CalscapePlants_init one_token_sheet = Inr one_token_plants"
  by (simp add: CalscapePlants_init_def one_token_columns add_species_def
        first_token_takeWhile one_token_plants_def)

lemma example_taxa_eq:
  "example_taxa =
     \<lparr> family_to_genus = [''Iridaceae'' \<mapsto> {''Iris''}, ''Asparagaceae'' \<mapsto> {''Camassia''},
                           ''Fagaceae'' \<mapsto> {''Quercus''}],
       genus_to_family = [''Iris'' \<mapsto> ''Iridaceae'', ''Camassia'' \<mapsto> ''Asparagaceae'',
                           ''Quercus'' \<mapsto> ''Fagaceae''] \<rparr>"
  by (simp add: example_taxa_def InatPlantTaxa_init_def add_taxon_def iris_row_def
        camassia_row_def quercus_row_def felis_row_def iridaceae_row_def)

lemma no_iris_taxa_eq:
  "no_iris_taxa =
     \<lparr> family_to_genus = [''Asparagaceae'' \<mapsto> {''Camassia''}, ''Fagaceae'' \<mapsto> {''Quercus''}],
       genus_to_family = [''Camassia'' \<mapsto> ''Asparagaceae'', ''Quercus'' \<mapsto> ''Fagaceae''] \<rparr>"
  by (simp add: no_iris_taxa_def InatPlantTaxa_init_def add_taxon_def
        camassia_row_def quercus_row_def)

lemma no_camassia_taxa_eq:
  "no_camassia_taxa =
     \<lparr> family_to_genus = [''Iridaceae'' \<mapsto> {''Iris''}, ''Fagaceae'' \<mapsto> {''Quercus''}],
       genus_to_family = [''Iris'' \<mapsto> ''Iridaceae'', ''Quercus'' \<mapsto> ''Fagaceae''] \<rparr>"
  by (simp add: no_camassia_taxa_def InatPlantTaxa_init_def add_taxon_def
        iris_row_def quercus_row_def)

lemma example_species_for_genus:
  "species_for_genus example_plants g =
     (if g = ''Quercus'' then {''Quercus agrifolia''} else if g = ''Camassia'' then {orion}
      else if g = ''Iris'' then {''Iris douglasiana''} else {})"
  by (simp add: species_for_genus_def example_plants_def)

lemma example_genuses: "genuses example_plants = {''Iris'', ''Camassia'', ''Quercus''}"
  by (auto simp: genuses_def example_plants_def)

lemma example_genuses_for_family:
  "genuses_for_family example_taxa f =
     (if f = ''Fagaceae'' then {''Quercus''} else if f = ''Asparagaceae'' then {''Camassia''}
      else if f = ''Iridaceae'' then {''Iris''} else {})"
  by (simp add: genuses_for_family_def example_taxa_eq)

lemma example_family_for_genus:
  "family_for_genus example_taxa g =
     (if g = ''Quercus'' then Inr ''Fagaceae'' else if g = ''Camassia'' then Inr ''Asparagaceae''
      else if g = ''Iris'' then Inr ''Iridaceae'' else Inl KeyError)"
  by (simp add: family_for_genus_def example_taxa_eq)

lemma no_iris_genuses_for_family:
  "genuses_for_family no_iris_taxa f =
     (if f = ''Fagaceae'' then {''Quercus''} else if f = ''Asparagaceae'' then {''Camassia''}
      else {})"
  by (simp add: genuses_for_family_def no_iris_taxa_eq)

lemma no_iris_family_for_genus:
  "family_for_genus no_iris_taxa g =
     (if g = ''Quercus'' then Inr ''Fagaceae'' else if g = ''Camassia'' then Inr ''Asparagaceae''
      else Inl KeyError)"
  by (simp add: family_for_genus_def no_iris_taxa_eq)

lemma example_select:
  "select_geophytes example_plants example_taxa =
     example_start \<lparr> geophytes := {''Iris douglasiana'', orion} \<rparr>"
  by (simp add: select_geophytes_def Let_def add_family_def example_genuses_for_family
        example_genuses BRODIAE_SUBFAMILY_GENUSES_def AGAVE_SUBFAMILY_GEOPHYTE_GENUSES_def
        add_genus_def example_species_for_genus example_start_def insert_commute)

lemma example_sorted:
  "sorted_list_of_set {''Iris douglasiana'', orion} = [orion, ''Iris douglasiana'']"
  by (simp add: orion_def)

lemma example_init: "CalscapeGeophytes_init example_plants example_taxa = Inr example_geophytes"
  by (simp add: CalscapeGeophytes_init_def example_select Let_def example_sorted
        place_species_def example_tokens example_family_for_genus tree_add_def
        example_geophytes_def example_start_def)

lemma cultivar_select:
  "select_geophytes example_plants no_iris_taxa =
     \<lparr> calscape_plants = example_plants, inat_taxa = no_iris_taxa,
       calscape_genuses = {''Iris'', ''Camassia'', ''Quercus''},
       geophytes = {orion}, family_tree = Map.empty \<rparr>"
  by (simp add: select_geophytes_def Let_def add_family_def no_iris_genuses_for_family
        example_genuses BRODIAE_SUBFAMILY_GENUSES_def AGAVE_SUBFAMILY_GEOPHYTE_GENUSES_def
        add_genus_def example_species_for_genus)

lemma cultivar_init: "CalscapeGeophytes_init example_plants no_iris_taxa = Inr cultivar_geophytes"
  by (simp add: CalscapeGeophytes_init_def cultivar_select Let_def
        place_species_def example_tokens no_iris_family_for_genus tree_add_def
        cultivar_geophytes_def)

lemma empty_init: "CalscapeGeophytes_init empty_plants example_taxa = Inr empty_geophytes"
  by (simp add: CalscapeGeophytes_init_def select_geophytes_def Let_def add_family_def
        genuses_def empty_plants_def species_for_genus_def add_genus_def
        BRODIAE_SUBFAMILY_GENUSES_def AGAVE_SUBFAMILY_GEOPHYTE_GENUSES_def
        empty_geophytes_def)

lemma example_lookup:
  "common_name_for_species example_plants ''Iris douglasiana'' = Inr (Some ''Douglas Iris'')"
  "common_name_for_species example_plants orion = Inr (Some ''Orion Camas'')"
  "url_for_species example_plants ''Iris douglasiana'' = Inr (Some ''calscape.org/iris'')"
  "url_for_species example_plants orion = Inr (Some ''calscape.org/camassia'')"
  by (simp_all add: common_name_for_species_def url_for_species_def example_plants_def orion_def)

lemma orion_is_cultivar: "CHR 0x27 \<in> set orion"
  by (simp add: orion_def cultivar_marker_def)

lemma example_rows_all: "csv_rows example_geophytes False = Inr [orion_row, douglas_iris_row]"
  by (simp add: csv_rows_def Let_def example_geophytes_def tree_cell_def example_lookup
        orion_row_def douglas_iris_row_def)

lemma example_rows_excluding: "csv_rows example_geophytes True = Inr [douglas_iris_row]"
  by (simp add: csv_rows_def Let_def example_geophytes_def tree_cell_def example_lookup
        orion_is_cultivar cultivar_marker_def douglas_iris_row_def)

lemma tab_columns:
  "get_column tab_sheet ''Botanical Name'' 6 ''A'' = Inr tab_species"
  "get_column tab_sheet ''Common Name'' 6 ''B'' = Inr [Some ''Douglas Iris'', Some ''Bowltube Iris'']"
  "get_column tab_sheet ''Plant Url'' 6 ''AW'' =
     Inr [Some ''calscape.org/iris'', Some ''calscape.org/bowltube'']"
  by (simp_all add: get_column_def tab_sheet_def tab_species_def Let_def upt_rec)

lemma tab_tokens:
  "first_token tab_iris = Inr tab_iris"
  "whitespace_token_spec tab_iris = ''Iris''"
  "whitespace_token_spec ''Iris douglasiana'' = ''Iris''"
  by (simp_all add: first_token_takeWhile tab_iris_def whitespace_token_spec_def
        is_whitespace_def)

lemma tab_iris_neq:
  "tab_iris \<noteq> ''Iris''" "tab_iris \<noteq> ''Iris douglasiana''"
  "''Iris'' \<noteq> tab_iris" "''Iris douglasiana'' \<noteq> tab_iris"
  by (simp_all add: tab_iris_def)

lemma tab_plants_init: "CalscapePlants_init tab_sheet = Inr tab_plants"
  by (simp add: CalscapePlants_init_def tab_columns tab_species_def add_species_def
        tab_tokens example_tokens tab_plants_def tab_iris_neq)

lemma tab_genuses: "genuses tab_plants = {''Iris'', tab_iris}"
  by (auto simp: genuses_def tab_plants_def)

lemma tab_species_for_genus:
  "species_for_genus tab_plants ''Iris'' = {''Iris douglasiana''}"
  by (simp add: species_for_genus_def tab_plants_def tab_iris_neq)

lemma tab_add_family:
  "geophytes (add_family tab_start ''Iridaceae'') = {''Iris douglasiana''}"
  by (simp add: add_family_def Let_def tab_start_def example_genuses_for_family
        tab_iris_neq add_genus_def tab_species_for_genus)

lemma allium_taxa_eq:
  "allium_taxa =
     \<lparr> family_to_genus = [''Amaryllidaceae'' \<mapsto> {''Allium''}],
       genus_to_family = [''Allium'' \<mapsto> ''Amaryllidaceae''] \<rparr>"
  by (simp add: allium_taxa_def InatPlantTaxa_init_def add_taxon_def allium_row_def)

lemma allium_genuses_for_family:
  "genuses_for_family allium_taxa f = (if f = ''Amaryllidaceae'' then {''Allium''} else {})"
  by (simp add: genuses_for_family_def allium_taxa_eq)

lemma allium_family_for_genus:
  "family_for_genus allium_taxa g =
     (if g = ''Allium'' then Inr ''Amaryllidaceae'' else Inl KeyError)"
  by (simp add: family_for_genus_def allium_taxa_eq)

lemma one_token_species_for_genus:
  "species_for_genus one_token_plants g = (if g = ''Allium'' then {''Allium''} else {})"
  by (simp add: species_for_genus_def one_token_plants_def)

lemma one_token_genuses: "genuses one_token_plants = {''Allium''}"
  by (auto simp: genuses_def one_token_plants_def)

lemma allium_select:
  "select_geophytes one_token_plants allium_taxa =
     \<lparr> calscape_plants = one_token_plants, inat_taxa = allium_taxa,
       calscape_genuses = {''Allium''}, geophytes = {''Allium''},
       family_tree = Map.empty \<rparr>"
  by (simp add: select_geophytes_def Let_def add_family_def allium_genuses_for_family
        one_token_genuses BRODIAE_SUBFAMILY_GENUSES_def AGAVE_SUBFAMILY_GEOPHYTE_GENUSES_def
        add_genus_def one_token_species_for_genus)

lemma allium_init: "CalscapeGeophytes_init one_token_plants allium_taxa = Inr allium_geophytes"
  by (simp add: CalscapeGeophytes_init_def allium_select Let_def place_species_def
        first_token_takeWhile allium_family_for_genus tree_add_def allium_geophytes_def)

section \<open>Writing the file\<close>

lemma write_csv_Inr:
  assumes "write_csv self path exclude_cultivars fs = Inr fs'"
  shows "\<exists>rows. csv_rows self exclude_cultivars = Inr rows \<and>
           fs' = (if rows = [] then fs else fs(path \<mapsto> (fieldnames, rows)))"
  using assms by (auto simp: write_csv_def split: sum.splits if_splits)

lemma write_csv_rows:
  assumes "csv_rows self exclude_cultivars = Inr rows"
  shows "write_csv self path exclude_cultivars fs =
           Inr (if rows = [] then fs else fs(path \<mapsto> (fieldnames, rows)))"
  using assms by (simp add: write_csv_def)

lemma constructed_csv_rows_total:
  assumes "CalscapePlants_init sheet = Inr plants"
    and "CalscapeGeophytes_init plants taxa = Inr self"
  shows "\<exists>rows. csv_rows self exclude_cultivars = Inr rows"
proof -
  note i = CalscapeGeophytes_init_Inr[OF assms(2)]
  have f: "found (calscape_plants self) n" if "n \<in> tree_cell (family_tree self) f g" for f g n
  proof -
    from that have "n \<in> geophytes (select_geophytes plants taxa)"
      using CalscapeGeophytes_init_cell_subset[OF assms(2), of f g] i(4) by blast
    from geophytes_found[OF assms(1) this] show ?thesis by (simp add: i(1))
  qed
  from csv_rows_total[of self exclude_cultivars] f show ?thesis by blast
qed

section \<open>The claims\<close>

text \<open>
  Claim C1. After the construction of \<open>CalscapeGeophytes\<close> has succeeded (every
  genus-to-family lookup found its key), the family tree partitions the geophyte set:
  every species of the set is in exactly one cell \<open>family_tree[family][genus]\<close>, every
  species of a cell is in the set, and the union of the cells is the set.
\<close>

theorem family_tree_partitions_geophytes:
  assumes "CalscapePlants_init sheet = Inr plants"
    and "CalscapeGeophytes_init plants taxa = Inr self"
  shows "(\<forall>s\<in>geophytes self.
            \<exists>f g. s \<in> tree_cell (family_tree self) f g \<and>
              (\<forall>f' g'. s \<in> tree_cell (family_tree self) f' g' \<longrightarrow> f' = f \<and> g' = g)) \<and>
         (\<forall>f g. tree_cell (family_tree self) f g \<subseteq> geophytes self) \<and>
         (\<Union>f. \<Union>g. tree_cell (family_tree self) f g) = geophytes self"
proof -
  note T = CalscapeGeophytes_init_tree[OF assms]
  have one: "\<exists>f g. s \<in> tree_cell (family_tree self) f g \<and>
              (\<forall>f' g'. s \<in> tree_cell (family_tree self) f' g' \<longrightarrow> f' = f \<and> g' = g)"
    if s: "s \<in> geophytes self" for s
  proof -
    from T(2) s obtain g f where gf: "first_token s = Inr g" "genus_to_family taxa g = Some f"
      unfolding mapped_iff by blast
    have a: "s \<in> tree_cell (family_tree self) f g" using s gf by (simp add: T(4))
    have b: "f' = f \<and> g' = g" if "s \<in> tree_cell (family_tree self) f' g'" for f' g'
    proof -
      from that have "first_token s = Inr g'" "genus_to_family taxa g' = Some f'"
        unfolding T(4) by simp_all
      with gf show ?thesis by simp
    qed
    from a b show ?thesis by blast
  qed
  have sub: "tree_cell (family_tree self) f g \<subseteq> geophytes self" for f g
    unfolding T(4) by (rule Collect_restrict)
  have un: "(\<Union>f. \<Union>g. tree_cell (family_tree self) f g) = geophytes self"
  proof (rule equalityI)
    show "(\<Union>f. \<Union>g. tree_cell (family_tree self) f g) \<subseteq> geophytes self"
      using sub by (intro UN_least)
    show "geophytes self \<subseteq> (\<Union>f. \<Union>g. tree_cell (family_tree self) f g)"
    proof
      fix s assume "s \<in> geophytes self"
      from one[OF this] obtain f g where "s \<in> tree_cell (family_tree self) f g" by blast
      then show "s \<in> (\<Union>f. \<Union>g. tree_cell (family_tree self) f g)" by (intro UN_I UNIV_I)
    qed
  qed
  show ?thesis by (intro conjI ballI allI one sub un)
qed

theorem family_tree_partitions_geophytes_witness:
  "CalscapePlants_init example_sheet = Inr example_plants \<and>
   CalscapeGeophytes_init example_plants example_taxa = Inr example_geophytes \<and>
   geophytes example_geophytes = {''Iris douglasiana'', orion} \<and>
   (\<exists>f g. orion \<in> tree_cell (family_tree example_geophytes) f g \<and>
      (\<forall>f' g'. orion \<in> tree_cell (family_tree example_geophytes) f' g' \<longrightarrow> f' = f \<and> g' = g)) \<and>
   tree_cell (family_tree example_geophytes) ''Iridaceae'' ''Iris'' \<subseteq> geophytes example_geophytes \<and>
   (\<Union>f. \<Union>g. tree_cell (family_tree example_geophytes) f g) = geophytes example_geophytes"
proof -
  note t = family_tree_partitions_geophytes[OF example_plants_init example_init]
  have g: "geophytes example_geophytes = {''Iris douglasiana'', orion}"
    by (simp add: example_geophytes_def)
  have o: "orion \<in> geophytes example_geophytes" unfolding g by simp
  from t have 1: "\<exists>f g. orion \<in> tree_cell (family_tree example_geophytes) f g \<and>
      (\<forall>f' g'. orion \<in> tree_cell (family_tree example_geophytes) f' g' \<longrightarrow> f' = f \<and> g' = g)"
    using o by (elim conjE) (rule bspec)
  from t have 2: "tree_cell (family_tree example_geophytes) ''Iridaceae'' ''Iris''
      \<subseteq> geophytes example_geophytes"
    by (elim conjE) (erule allE)+
  from t have 3: "(\<Union>f. \<Union>g. tree_cell (family_tree example_geophytes) f g)
      = geophytes example_geophytes"
    by (elim conjE)
  show ?thesis by (intro conjI example_plants_init example_init g 1 2 3)
qed

text \<open>
  Claim C2, as stated: \<open>add_family\<close> adds exactly the source species whose derived genus,
  the first whitespace-delimited token of the species name, is both a genus of the source
  table and a genus that the taxonomy maps to the family. This fails: the code derives
  the genus with \<^verbatim>\<open>split(" ")\<close>, which splits at the space character only. A species
  name with a tab after \<open>Iris\<close> has the whitespace-delimited token \<open>Iris\<close>, a genus of
  the table that the taxonomy maps to \<open>Iridaceae\<close>, and \<open>add_family\<close> does not add it.
\<close>

theorem add_family_whitespace_token_counterexample:
  "CalscapePlants_init tab_sheet = Inr tab_plants \<and>
   get_column tab_sheet ''Botanical Name'' 6 ''A'' = Inr tab_species \<and>
   calscape_plants tab_start = tab_plants \<and>
   calscape_genuses tab_start = genuses tab_plants \<and>
   Some tab_iris \<in> set tab_species \<and>
   whitespace_token_spec tab_iris = ''Iris'' \<and>
   ''Iris'' \<in> genuses tab_plants \<inter> genuses_for_family (inat_taxa tab_start) ''Iridaceae'' \<and>
   tab_iris \<notin> geophytes (add_family tab_start ''Iridaceae'') \<and>
   first_token tab_iris = Inr tab_iris"
proof -
  have f: "calscape_plants tab_start = tab_plants"
    "calscape_genuses tab_start = genuses tab_plants"
    by (simp_all add: tab_start_def tab_genuses)
  have m: "Some tab_iris \<in> set tab_species" by (simp add: tab_species_def)
  have i: "''Iris'' \<in> genuses tab_plants \<inter> genuses_for_family (inat_taxa tab_start) ''Iridaceae''"
    by (simp add: tab_genuses tab_start_def example_genuses_for_family)
  have n: "tab_iris \<notin> geophytes (add_family tab_start ''Iridaceae'')"
    unfolding tab_add_family by (simp add: tab_iris_neq)
  show ?thesis
    by (intro conjI tab_plants_init tab_columns(1) f m tab_tokens(2) i n tab_tokens(1))
qed

text \<open>
  Claim C2, amended: for every family name, \<open>add_family\<close> adds to the geophyte set exactly
  the source species whose derived genus, the part of the species name before its first
  space character (\<^verbatim>\<open>x.split(" ")[0]\<close>), is both a genus of the source table and a genus
  that the taxonomy maps to that family: the set afterwards is the set before united with
  those species, and no other species is added. The object is one that the constructor
  works on: its \<open>calscape_plants\<close> was read from a sheet and its \<open>calscape_genuses\<close> are
  the genera of that table.
\<close>

theorem add_family_adds_family_genera:
  assumes "CalscapePlants_init sheet = Inr plants"
    and "get_column sheet ''Botanical Name'' 6 ''A'' = Inr species"
    and "calscape_plants self = plants"
    and "calscape_genuses self = genuses plants"
  shows "genuses plants = {g. \<exists>s. Some s \<in> set species \<and> first_token s = Inr g} \<and>
         geophytes (add_family self fam) =
           geophytes self \<union>
           {s. Some s \<in> set species \<and>
               (\<exists>g. first_token s = Inr g \<and>
                    g \<in> genuses plants \<inter> genuses_for_family (inat_taxa self) fam)}"
proof -
  from CalscapePlants_init_Inr[OF assms(1)] assms(2) have
    g: "genuses plants = {g. \<exists>s. Some s \<in> set species \<and> first_token s = Inr g}" and
    s: "\<And>g. species_for_genus plants g = {s. Some s \<in> set species \<and> first_token s = Inr g}"
    by auto
  have fin: "finite (calscape_genuses self)"
    using CalscapePlants_init_finite(1)[OF assms(1)] assms(4) by simp
  have "geophytes (add_family self fam) =
           geophytes self \<union>
           {s. Some s \<in> set species \<and>
               (\<exists>g. first_token s = Inr g \<and>
                    g \<in> genuses plants \<inter> genuses_for_family (inat_taxa self) fam)}"
    unfolding add_family_geophytes[OF fin] assms(3,4) s by auto
  with g show ?thesis by simp
qed

theorem add_family_adds_family_genera_witness:
  "CalscapePlants_init example_sheet = Inr example_plants \<and>
   get_column example_sheet ''Botanical Name'' 6 ''A'' = Inr example_species \<and>
   calscape_plants example_start = example_plants \<and>
   calscape_genuses example_start = genuses example_plants \<and>
   geophytes (add_family example_start ''Iridaceae'') = {''Iris douglasiana''} \<and>
   {''Iris douglasiana''} =
     geophytes example_start \<union>
     {s. Some s \<in> set example_species \<and>
         (\<exists>g. first_token s = Inr g \<and>
              g \<in> genuses example_plants \<inter>
                  genuses_for_family (inat_taxa example_start) ''Iridaceae'')}"
proof -
  have f: "calscape_plants example_start = example_plants"
    "calscape_genuses example_start = genuses example_plants"
    by (simp_all add: example_start_def example_genuses)
  have e: "geophytes (add_family example_start ''Iridaceae'') = {''Iris douglasiana''}"
    by (simp add: add_family_def Let_def example_start_def example_genuses_for_family
          add_genus_def example_species_for_genus)
  note t = add_family_adds_family_genera[OF example_plants_init example_columns(1) f,
      of "''Iridaceae''", unfolded e]
  from t have 2: "{''Iris douglasiana''} =
     geophytes example_start \<union>
     {s. Some s \<in> set example_species \<and>
         (\<exists>g. first_token s = Inr g \<and>
              g \<in> genuses example_plants \<inter>
                  genuses_for_family (inat_taxa example_start) ''Iridaceae'')}"
    by (elim conjE)
  show ?thesis
    by (intro conjI example_plants_init example_columns(1) f e 2)
qed

text \<open>
  Claim C3. For every genus of the explicit genus lists (the Brodiaeoideae list, the
  Agavaceae list and \<open>Allium\<close>), \<open>add_genus\<close> adds all source species of that genus to the
  geophyte set, whatever the taxonomy reference holds: the result does not depend on
  \<open>inat_taxa\<close>, the object is unchanged when the genus has no source species, and the
  species are in the geophyte set that the inclusion rules of the constructor select.
\<close>

theorem add_genus_adds_source_species:
  assumes "CalscapePlants_init sheet = Inr plants"
    and "get_column sheet ''Botanical Name'' 6 ''A'' = Inr species"
    and "calscape_plants self = plants"
    and "genus \<in> set explicit_genuses"
  shows "geophytes (add_genus self genus) =
           geophytes self \<union> {s. Some s \<in> set species \<and> first_token s = Inr genus} \<and>
         add_genus (self \<lparr> inat_taxa := taxa \<rparr>) genus = (add_genus self genus) \<lparr> inat_taxa := taxa \<rparr> \<and>
         ({s. Some s \<in> set species \<and> first_token s = Inr genus} = {} \<longrightarrow>
            add_genus self genus = self) \<and>
         {s. Some s \<in> set species \<and> first_token s = Inr genus}
           \<subseteq> geophytes (select_geophytes plants taxa)"
proof -
  from CalscapePlants_init_Inr[OF assms(1)] assms(2) have
    s: "\<And>g. species_for_genus plants g = {s. Some s \<in> set species \<and> first_token s = Inr g}"
    by auto
  have 1: "geophytes (add_genus self genus) =
           geophytes self \<union> {s. Some s \<in> set species \<and> first_token s = Inr genus}"
    by (simp add: add_genus_def assms(3) s)
  have 2: "add_genus (self \<lparr> inat_taxa := taxa \<rparr>) genus = (add_genus self genus) \<lparr> inat_taxa := taxa \<rparr>"
    by (simp add: add_genus_def)
  have 3: "{s. Some s \<in> set species \<and> first_token s = Inr genus} = {} \<longrightarrow>
            add_genus self genus = self"
  proof
    assume "{s. Some s \<in> set species \<and> first_token s = Inr genus} = {}"
    then have "species_for_genus (calscape_plants self) genus = {}"
      unfolding assms(3) s .
    then show "add_genus self genus = self" by (simp add: add_genus_def)
  qed
  have "genus \<in> included_genuses plants taxa"
    using assms(4) by (auto simp: included_genuses_def explicit_genuses_def)
  then have 4: "{s. Some s \<in> set species \<and> first_token s = Inr genus}
           \<subseteq> geophytes (select_geophytes plants taxa)"
    unfolding select_geophytes_geophytes[OF CalscapePlants_init_finite(1)[OF assms(1)]]
    using s by blast
  show ?thesis by (intro conjI 1 2 3 4)
qed

theorem add_genus_adds_source_species_witness:
  "CalscapePlants_init example_sheet = Inr example_plants \<and>
   get_column example_sheet ''Botanical Name'' 6 ''A'' = Inr example_species \<and>
   calscape_plants example_start = example_plants \<and>
   ''Camassia'' \<in> set explicit_genuses \<and>
   {s. Some s \<in> set example_species \<and> first_token s = Inr ''Camassia''} = {orion} \<and>
   geophytes (add_genus example_start ''Camassia'') = geophytes example_start \<union> {orion} \<and>
   add_genus (example_start \<lparr> inat_taxa := no_camassia_taxa \<rparr>) ''Camassia'' =
     (add_genus example_start ''Camassia'') \<lparr> inat_taxa := no_camassia_taxa \<rparr> \<and>
   {orion} \<subseteq> geophytes (select_geophytes example_plants no_camassia_taxa)"
proof -
  have f: "calscape_plants example_start = example_plants"
    by (simp add: example_start_def)
  have m: "''Camassia'' \<in> set explicit_genuses"
    by (simp add: explicit_genuses_def AGAVE_SUBFAMILY_GEOPHYTE_GENUSES_def)
  have c: "{s. Some s \<in> set example_species \<and> first_token s = Inr ''Camassia''} = {orion}"
    by (auto simp: example_species_def example_tokens)
  note t = add_genus_adds_source_species[OF example_plants_init example_columns(1) f m,
      of no_camassia_taxa, unfolded c]
  from t have 1: "geophytes (add_genus example_start ''Camassia'') =
      geophytes example_start \<union> {orion}" by (elim conjE)
  from t have 2: "add_genus (example_start \<lparr> inat_taxa := no_camassia_taxa \<rparr>) ''Camassia'' =
     (add_genus example_start ''Camassia'') \<lparr> inat_taxa := no_camassia_taxa \<rparr>" by (elim conjE)
  from t have 3: "{orion} \<subseteq> geophytes (select_geophytes example_plants no_camassia_taxa)"
    by (elim conjE)
  show ?thesis by (intro conjI example_plants_init example_columns(1) f m c 1 2 3)
qed

text \<open>
  Claim C4. While the family tree is built, a species of the geophyte set whose derived
  genus is not a key of the taxonomy's genus-to-family index makes the construction fail
  with the missing-key error, and no species is dropped silently: the construction of
  \<open>CalscapeGeophytes\<close> raises \<open>KeyError\<close> exactly when some selected species has an
  unmapped genus, and it completes, with every selected species in the geophyte set,
  exactly when every selected species has a mapped genus.
\<close>

theorem init_fails_iff_unmapped:
  assumes "CalscapePlants_init sheet = Inr plants"
  shows "(CalscapeGeophytes_init plants taxa = Inl KeyError \<longleftrightarrow>
            (\<exists>s\<in>geophytes (select_geophytes plants taxa).
               \<exists>g. first_token s = Inr g \<and> family_for_genus taxa g = Inl KeyError)) \<and>
         ((\<exists>self. CalscapeGeophytes_init plants taxa = Inr self \<and>
                  geophytes self = geophytes (select_geophytes plants taxa)) \<longleftrightarrow>
            (\<forall>s\<in>geophytes (select_geophytes plants taxa).
               \<exists>g f. first_token s = Inr g \<and> family_for_genus taxa g = Inr f))"
proof -
  let ?G = "geophytes (select_geophytes plants taxa)"
  let ?M = "\<forall>s\<in>?G. mapped taxa s"
  have nm: "(\<exists>g. first_token s = Inr g \<and> family_for_genus taxa g = Inl KeyError) \<longleftrightarrow>
            \<not> mapped taxa s" for s
    by (auto simp: mapped_iff first_token_takeWhile family_for_genus_def split: option.splits)
  have bad: "(\<exists>s\<in>?G. \<exists>g. first_token s = Inr g \<and> family_for_genus taxa g = Inl KeyError)
      \<longleftrightarrow> \<not> ?M"
    unfolding nm by blast
  have good: "(\<forall>s\<in>?G. \<exists>g f. first_token s = Inr g \<and> family_for_genus taxa g = Inr f)
      \<longleftrightarrow> ?M"
    unfolding mapped_def by blast
  note c = CalscapeGeophytes_init_cases[OF assms, of taxa]
  have 1: "CalscapeGeophytes_init plants taxa = Inl KeyError \<longleftrightarrow> \<not> ?M"
  proof
    assume e: "CalscapeGeophytes_init plants taxa = Inl KeyError"
    show "\<not> ?M"
    proof
      assume ?M
      from c(2)[OF this] e show False by simp
    qed
  next
    assume "\<not> ?M"
    with c(1) show "CalscapeGeophytes_init plants taxa = Inl KeyError" by metis
  qed
  have 2: "(\<exists>self. CalscapeGeophytes_init plants taxa = Inr self \<and> geophytes self = ?G)
      \<longleftrightarrow> ?M"
  proof
    assume "\<exists>self. CalscapeGeophytes_init plants taxa = Inr self \<and> geophytes self = ?G"
    then have "CalscapeGeophytes_init plants taxa \<noteq> Inl KeyError" by auto
    with 1 show ?M by blast
  next
    assume ?M
    from c(2)[OF this] obtain self where s: "CalscapeGeophytes_init plants taxa = Inr self" ..
    from CalscapeGeophytes_init_Inr(4)[OF s] s
    show "\<exists>self. CalscapeGeophytes_init plants taxa = Inr self \<and> geophytes self = ?G"
      by blast
  qed
  show ?thesis unfolding bad good using 1 2 by (intro conjI)
qed

theorem init_fails_iff_unmapped_witness:
  "CalscapePlants_init example_sheet = Inr example_plants \<and>
   orion \<in> geophytes (select_geophytes example_plants no_camassia_taxa) \<and>
   first_token orion = Inr ''Camassia'' \<and>
   family_for_genus no_camassia_taxa ''Camassia'' = Inl KeyError \<and>
   CalscapeGeophytes_init example_plants no_camassia_taxa = Inl KeyError \<and>
   geophytes (select_geophytes example_plants example_taxa) = {''Iris douglasiana'', orion} \<and>
   family_for_genus example_taxa ''Iris'' = Inr ''Iridaceae'' \<and>
   family_for_genus example_taxa ''Camassia'' = Inr ''Asparagaceae'' \<and>
   (\<exists>self. CalscapeGeophytes_init example_plants example_taxa = Inr self \<and>
      geophytes self = geophytes (select_geophytes example_plants example_taxa))"
proof -
  have k: "family_for_genus no_camassia_taxa ''Camassia'' = Inl KeyError"
    by (simp add: family_for_genus_def no_camassia_taxa_eq)
  have "''Camassia'' \<in> included_genuses example_plants no_camassia_taxa"
    by (simp add: included_genuses_def AGAVE_SUBFAMILY_GEOPHYTE_GENUSES_def)
  moreover have "orion \<in> species_for_genus example_plants ''Camassia''"
    by (simp add: example_species_for_genus)
  ultimately have o: "orion \<in> geophytes (select_geophytes example_plants no_camassia_taxa)"
    unfolding select_geophytes_geophytes[OF CalscapePlants_init_finite(1)[OF example_plants_init]]
    by (rule UN_I)
  note bad = init_fails_iff_unmapped[OF example_plants_init, of no_camassia_taxa]
  have "\<exists>s\<in>geophytes (select_geophytes example_plants no_camassia_taxa).
          \<exists>g. first_token s = Inr g \<and> family_for_genus no_camassia_taxa g = Inl KeyError"
    using o example_tokens(2) k by blast
  with bad have 1: "CalscapeGeophytes_init example_plants no_camassia_taxa = Inl KeyError"
    by blast
  have g: "geophytes (select_geophytes example_plants example_taxa) = {''Iris douglasiana'', orion}"
    by (simp add: example_select)
  have f: "family_for_genus example_taxa ''Iris'' = Inr ''Iridaceae''"
    "family_for_genus example_taxa ''Camassia'' = Inr ''Asparagaceae''"
    by (simp_all add: example_family_for_genus)
  note good = init_fails_iff_unmapped[OF example_plants_init, of example_taxa]
  have "\<forall>s\<in>geophytes (select_geophytes example_plants example_taxa).
          \<exists>g f. first_token s = Inr g \<and> family_for_genus example_taxa g = Inr f"
    unfolding g using example_tokens(1,2) f by blast
  with good have 2: "\<exists>self. CalscapeGeophytes_init example_plants example_taxa = Inr self \<and>
      geophytes self = geophytes (select_geophytes example_plants example_taxa)"
    by blast
  show ?thesis by (intro conjI example_plants_init o example_tokens(2) k 1 g f 2)
qed

text \<open>
  Claim C5. For every family tree and both values of \<open>exclude_cultivars\<close>, the rows that
  \<open>write_csv\<close> produces are in ascending lexical order by family, then genus, then
  species: when \<open>write_csv\<close> returns, the file at the path holds exactly the rows of the
  three nested loops (or no file is written when there is none), the list of their keys is
  sorted in the lexicographic order of triples of strings, and each row comes strictly
  before every later row.
\<close>

theorem write_csv_rows_sorted:
  assumes "write_csv self path exclude_cultivars fs = Inr fs'"
  shows "\<exists>rows. csv_rows self exclude_cultivars = Inr rows \<and>
           fs' = (if rows = [] then fs else fs(path \<mapsto> (fieldnames, rows))) \<and>
           sorted (map row_key rows) \<and> sorted_wrt row_before rows"
proof -
  from write_csv_Inr[OF assms] obtain rows where
    r: "csv_rows self exclude_cultivars = Inr rows" and
    w: "fs' = (if rows = [] then fs else fs(path \<mapsto> (fieldnames, rows)))"
    by blast
  have k: "map row_key rows = tree_keys (family_tree self) exclude_cultivars"
    by (rule csv_rows_Inr(1)[OF r])
  have s: "sorted_wrt (<) (map row_key rows)"
    unfolding k by (rule tree_keys_sorted)
  then have 1: "sorted (map row_key rows)"
    using strict_sorted_iff by blast
  from s have 2: "sorted_wrt row_before rows"
    unfolding sorted_wrt_map row_before_iff .
  from r w 1 2 show ?thesis by blast
qed

theorem write_csv_rows_sorted_witness:
  "write_csv example_geophytes ''geophytes.csv'' False Map.empty =
     Inr [''geophytes.csv'' \<mapsto> (fieldnames, [orion_row, douglas_iris_row])] \<and>
   sorted (map row_key [orion_row, douglas_iris_row]) \<and>
   sorted_wrt row_before [orion_row, douglas_iris_row] \<and>
   row_key orion_row = (''Asparagaceae'', ''Camassia'', orion) \<and>
   row_key douglas_iris_row = (''Iridaceae'', ''Iris'', ''Iris douglasiana'') \<and>
   write_csv example_geophytes ''geophytes.csv'' True Map.empty =
     Inr [''geophytes.csv'' \<mapsto> (fieldnames, [douglas_iris_row])] \<and>
   sorted (map row_key [douglas_iris_row]) \<and>
   sorted_wrt row_before [douglas_iris_row]"
proof -
  have wa: "write_csv example_geophytes ''geophytes.csv'' False Map.empty =
     Inr [''geophytes.csv'' \<mapsto> (fieldnames, [orion_row, douglas_iris_row])]"
    by (simp add: write_csv_rows[OF example_rows_all])
  have wb: "write_csv example_geophytes ''geophytes.csv'' True Map.empty =
     Inr [''geophytes.csv'' \<mapsto> (fieldnames, [douglas_iris_row])]"
    by (simp add: write_csv_rows[OF example_rows_excluding])
  from write_csv_rows_sorted[OF wa] obtain rows where
    "csv_rows example_geophytes False = Inr rows"
    "sorted (map row_key rows)" "sorted_wrt row_before rows"
    by (elim exE conjE)
  then have a: "sorted (map row_key [orion_row, douglas_iris_row])"
    "sorted_wrt row_before [orion_row, douglas_iris_row]"
    unfolding example_rows_all by simp_all
  from write_csv_rows_sorted[OF wb] obtain rows' where
    "csv_rows example_geophytes True = Inr rows'"
    "sorted (map row_key rows')" "sorted_wrt row_before rows'"
    by (elim exE conjE)
  then have b: "sorted (map row_key [douglas_iris_row])"
    "sorted_wrt row_before [douglas_iris_row]"
    unfolding example_rows_excluding by simp_all
  have k: "row_key orion_row = (''Asparagaceae'', ''Camassia'', orion)"
    "row_key douglas_iris_row = (''Iridaceae'', ''Iris'', ''Iris douglasiana'')"
    by (simp_all add: row_key_def orion_row_def douglas_iris_row_def)
  show ?thesis by (intro conjI wa wb a b k)
qed

text \<open>
  Claim C6. When \<open>write_csv\<close> is called on a constructed object with
  \<open>exclude_cultivars\<close> enabled, no row it writes has a species name that contains the
  apostrophe, and the number of rows left out, compared with a run without the flag, is
  the total geophyte count minus the count without cultivars that \<open>print_summary\<close>
  reports: both runs succeed, the run without the flag writes one row for each geophyte
  and the run with the flag one row for each geophyte that is not a cultivar (and a run
  with no row writes no file).
\<close>

theorem exclude_cultivars_rows:
  assumes "CalscapePlants_init sheet = Inr plants"
    and "CalscapeGeophytes_init plants taxa = Inr self"
  shows "\<exists>rows_all rows_excluding.
           csv_rows self False = Inr rows_all \<and>
           csv_rows self True = Inr rows_excluding \<and>
           write_csv self path False fs =
             Inr (if rows_all = [] then fs else fs(path \<mapsto> (fieldnames, rows_all))) \<and>
           write_csv self path True fs =
             Inr (if rows_excluding = [] then fs
                  else fs(path \<mapsto> (fieldnames, rows_excluding))) \<and>
           (\<forall>r\<in>set rows_excluding. cultivar_marker \<notin> set (row_species r)) \<and>
           length rows_all - length rows_excluding =
             num_geophytes (print_summary self) - num_no_cultivars (print_summary self) \<and>
           length rows_all = num_geophytes (print_summary self) \<and>
           length rows_excluding = num_no_cultivars (print_summary self)"
proof -
  from constructed_csv_rows_total[OF assms] obtain rows_all where
    ra: "csv_rows self False = Inr rows_all" by blast
  from constructed_csv_rows_total[OF assms] obtain rows_excluding where
    re: "csv_rows self True = Inr rows_excluding" by blast
  have fin: "finite (geophytes self)" by (rule CalscapeGeophytes_init_tree(1)[OF assms(1,2)])
  note p = print_summary_counts[OF fin]
  have 1: "\<forall>r\<in>set rows_excluding. cultivar_marker \<notin> set (row_species r)"
  proof
    fix r assume "r \<in> set rows_excluding"
    then have "row_key r \<in> set (map row_key rows_excluding)" by simp
    then have "row_key r \<in> set (tree_keys (family_tree self) True)"
      unfolding csv_rows_Inr(1)[OF re] .
    from tree_keys_elem[OF this] have "keep True (row_species r)"
      by (simp add: row_key_def)
    then show "cultivar_marker \<notin> set (row_species r)" by (simp add: keep_def)
  qed
  have "length rows_all = length (map row_key rows_all)" by simp
  also have "\<dots> = card {n \<in> geophytes self. keep False n}"
    unfolding csv_rows_Inr(1)[OF ra] by (rule tree_keys_length[OF assms(1,2)])
  also have "\<dots> = card (geophytes self)" by (simp add: keep_def)
  finally have 3: "length rows_all = num_geophytes (print_summary self)"
    using p(1) by simp
  have "length rows_excluding = length (map row_key rows_excluding)" by simp
  also have "\<dots> = card {n \<in> geophytes self. keep True n}"
    unfolding csv_rows_Inr(1)[OF re] by (rule tree_keys_length[OF assms(1,2)])
  finally have 4: "length rows_excluding = num_no_cultivars (print_summary self)"
    using p(2) by simp
  have 2: "length rows_all - length rows_excluding =
           num_geophytes (print_summary self) - num_no_cultivars (print_summary self)"
    unfolding 3 4 ..
  note wa = write_csv_rows[OF ra, of path fs]
  note we = write_csv_rows[OF re, of path fs]
  from ra re wa we 1 2 3 4 show ?thesis by blast
qed

theorem exclude_cultivars_rows_witness:
  "CalscapePlants_init example_sheet = Inr example_plants \<and>
   CalscapeGeophytes_init example_plants example_taxa = Inr example_geophytes \<and>
   write_csv example_geophytes ''geophytes.csv'' False Map.empty =
     Inr [''geophytes.csv'' \<mapsto> (fieldnames, [orion_row, douglas_iris_row])] \<and>
   write_csv example_geophytes ''geophytes.csv'' True Map.empty =
     Inr [''geophytes.csv'' \<mapsto> (fieldnames, [douglas_iris_row])] \<and>
   cultivar_marker \<notin> set (row_species douglas_iris_row) \<and>
   cultivar_marker \<in> set (row_species orion_row) \<and>
   num_geophytes (print_summary example_geophytes) = 2 \<and>
   num_no_cultivars (print_summary example_geophytes) = 1 \<and>
   length [orion_row, douglas_iris_row] - length [douglas_iris_row] =
     num_geophytes (print_summary example_geophytes) -
     num_no_cultivars (print_summary example_geophytes)"
proof -
  from exclude_cultivars_rows[OF example_plants_init example_init,
      of "''geophytes.csv''" Map.empty]
  obtain rows_all rows_excluding where
    ra: "csv_rows example_geophytes False = Inr rows_all" and
    re: "csv_rows example_geophytes True = Inr rows_excluding" and
    wa: "write_csv example_geophytes ''geophytes.csv'' False Map.empty =
           Inr (if rows_all = [] then Map.empty
                else [''geophytes.csv'' \<mapsto> (fieldnames, rows_all)])" and
    we: "write_csv example_geophytes ''geophytes.csv'' True Map.empty =
           Inr (if rows_excluding = [] then Map.empty
                else [''geophytes.csv'' \<mapsto> (fieldnames, rows_excluding)])" and
    c: "\<forall>r\<in>set rows_excluding. cultivar_marker \<notin> set (row_species r)" and
    d: "length rows_all - length rows_excluding =
          num_geophytes (print_summary example_geophytes) -
          num_no_cultivars (print_summary example_geophytes)" and
    la: "length rows_all = num_geophytes (print_summary example_geophytes)" and
    le: "length rows_excluding = num_no_cultivars (print_summary example_geophytes)"
    by (elim exE conjE)
  from ra have a: "rows_all = [orion_row, douglas_iris_row]"
    unfolding example_rows_all by simp
  from re have e: "rows_excluding = [douglas_iris_row]"
    unfolding example_rows_excluding by simp
  from wa have 1: "write_csv example_geophytes ''geophytes.csv'' False Map.empty =
     Inr [''geophytes.csv'' \<mapsto> (fieldnames, [orion_row, douglas_iris_row])]"
    unfolding a by simp
  from we have 2: "write_csv example_geophytes ''geophytes.csv'' True Map.empty =
     Inr [''geophytes.csv'' \<mapsto> (fieldnames, [douglas_iris_row])]"
    unfolding e by simp
  from c have 3: "cultivar_marker \<notin> set (row_species douglas_iris_row)"
    unfolding e by simp
  have 4: "cultivar_marker \<in> set (row_species orion_row)"
    by (simp add: orion_row_def orion_def)
  from la have 5: "num_geophytes (print_summary example_geophytes) = 2"
    unfolding a by simp
  from le have 6: "num_no_cultivars (print_summary example_geophytes) = 1"
    unfolding e by simp
  from d have 7: "length [orion_row, douglas_iris_row] - length [douglas_iris_row] =
     num_geophytes (print_summary example_geophytes) -
     num_no_cultivars (print_summary example_geophytes)"
    unfolding a e .
  show ?thesis by (intro conjI example_plants_init example_init 1 2 3 4 5 6 7)
qed

text \<open>
  Claim C7. Whenever the rows that \<open>write_csv\<close> computes are empty, it creates no file and
  leaves the file system as it was, also when a path was given: in particular when the
  geophyte set of the constructed object is empty, and when every geophyte is a cultivar
  and \<open>exclude_cultivars\<close> is enabled.
\<close>

theorem write_csv_no_rows_no_file:
  "(csv_rows self exclude_cultivars = Inr [] \<longrightarrow>
      write_csv self path exclude_cultivars fs = Inr fs) \<and>
   (CalscapeGeophytes_init plants taxa = Inr obj \<and> geophytes obj = {} \<longrightarrow>
      write_csv obj path exclude_cultivars fs = Inr fs) \<and>
   (CalscapeGeophytes_init plants taxa = Inr obj \<and>
    (\<forall>s\<in>geophytes obj. cultivar_marker \<in> set s) \<longrightarrow>
      write_csv obj path True fs = Inr fs)"
proof (intro conjI impI)
  assume "csv_rows self exclude_cultivars = Inr []"
  then show "write_csv self path exclude_cultivars fs = Inr fs"
    by (simp add: write_csv_def)
next
  assume a: "CalscapeGeophytes_init plants taxa = Inr obj \<and> geophytes obj = {}"
  then have "tree_cell (family_tree obj) f g = {}" for f g
    using CalscapeGeophytes_init_cell_subset[of plants taxa obj f g] by simp
  then have "csv_rows obj exclude_cultivars = Inr []"
    by (intro csv_rows_all_skipped) simp
  then show "write_csv obj path exclude_cultivars fs = Inr fs"
    by (simp add: write_csv_def)
next
  assume a: "CalscapeGeophytes_init plants taxa = Inr obj \<and>
    (\<forall>s\<in>geophytes obj. cultivar_marker \<in> set s)"
  have "\<not> keep True n" if "n \<in> tree_cell (family_tree obj) f g" for f g n
  proof -
    from that a have "n \<in> geophytes obj"
      using CalscapeGeophytes_init_cell_subset[of plants taxa obj f g] by blast
    with a show ?thesis by (simp add: keep_def)
  qed
  then have "csv_rows obj True = Inr []"
    by (rule csv_rows_all_skipped)
  then show "write_csv obj path True fs = Inr fs"
    by (simp add: write_csv_def)
qed

theorem write_csv_no_rows_no_file_witness:
  "CalscapeGeophytes_init empty_plants example_taxa = Inr empty_geophytes \<and>
   geophytes empty_geophytes = {} \<and>
   write_csv empty_geophytes ''geophytes.csv'' False Map.empty = Inr Map.empty \<and>
   CalscapeGeophytes_init example_plants no_iris_taxa = Inr cultivar_geophytes \<and>
   geophytes cultivar_geophytes = {orion} \<and>
   cultivar_marker \<in> set orion \<and>
   csv_rows cultivar_geophytes True = Inr [] \<and>
   write_csv cultivar_geophytes ''geophytes.csv'' True Map.empty = Inr Map.empty"
proof -
  have e: "geophytes empty_geophytes = {}" by (simp add: empty_geophytes_def)
  note t1 = write_csv_no_rows_no_file[of empty_geophytes False "''geophytes.csv''" Map.empty
      empty_plants example_taxa empty_geophytes]
  from t1 empty_init e
  have 1: "write_csv empty_geophytes ''geophytes.csv'' False Map.empty = Inr Map.empty"
    by blast
  have g: "geophytes cultivar_geophytes = {orion}" by (simp add: cultivar_geophytes_def)
  have m: "cultivar_marker \<in> set orion" by (simp add: orion_def)
  have r: "csv_rows cultivar_geophytes True = Inr []"
    by (simp add: csv_rows_def Let_def cultivar_geophytes_def tree_cell_def m)
  have a: "\<forall>s\<in>geophytes cultivar_geophytes. cultivar_marker \<in> set s"
    unfolding g using m by simp
  note t2 = write_csv_no_rows_no_file[of cultivar_geophytes True "''geophytes.csv''" Map.empty
      example_plants no_iris_taxa cultivar_geophytes]
  from t2 cultivar_init a
  have 2: "write_csv cultivar_geophytes ''geophytes.csv'' True Map.empty = Inr Map.empty"
    by blast
  show ?thesis by (intro conjI empty_init e 1 cultivar_init g m r 2)
qed

text \<open>
  Claim C8. For every species of a row that \<open>write_csv\<close> emits, the lookups of its common
  name and of its URL succeed: the three columns are read over the same rows, so both
  dictionaries have every species of the Botanical Name column as a key; the geophyte set
  holds species of that column only; and the computation of the rows of a constructed
  object never raises the missing-key error.
\<close>

theorem csv_lookups_succeed:
  assumes "CalscapePlants_init sheet = Inr plants"
    and "get_column sheet ''Botanical Name'' 6 ''A'' = Inr species"
    and "CalscapeGeophytes_init plants taxa = Inr self"
  shows "(\<exists>common_names urls.
            get_column sheet ''Common Name'' 6 ''B'' = Inr common_names \<and>
            get_column sheet ''Plant Url'' 6 ''AW'' = Inr urls \<and>
            length common_names = length species \<and> length urls = length species) \<and>
         dom (species_to_common_name plants) = set species \<and>
         dom (species_to_url plants) = set species \<and>
         geophytes self \<subseteq> {s. Some s \<in> set species} \<and>
         (\<exists>rows. csv_rows self exclude_cultivars = Inr rows \<and>
            (\<forall>r\<in>set rows.
               common_name_for_species plants (row_species r) = Inr (row_common_name r) \<and>
               url_for_species plants (row_species r) = Inr (row_url r)))"
proof -
  from assms(1,2) obtain common_names urls where
    c: "get_column sheet ''Common Name'' 6 ''B'' = Inr common_names" and
    u: "get_column sheet ''Plant Url'' 6 ''AW'' = Inr urls"
    by (auto simp: CalscapePlants_init_def split: sum.splits)
  have len: "length common_names = length species" "length urls = length species"
    using assms(2) c u by (simp_all add: get_column_length)
  from c u len have 1: "\<exists>common_names urls.
            get_column sheet ''Common Name'' 6 ''B'' = Inr common_names \<and>
            get_column sheet ''Plant Url'' 6 ''AW'' = Inr urls \<and>
            length common_names = length species \<and> length urls = length species"
    by blast
  from CalscapePlants_init_Inr[OF assms(1)] assms(2) have
    2: "dom (species_to_common_name plants) = set species" and
    3: "dom (species_to_url plants) = set species"
    by auto
  note i = CalscapeGeophytes_init_Inr[OF assms(3)]
  have 4: "geophytes self \<subseteq> {s. Some s \<in> set species}"
    unfolding i(4) by (rule geophytes_in_source[OF assms(1,2)])
  have f: "found (calscape_plants self) n" if "n \<in> tree_cell (family_tree self) f g" for f g n
  proof -
    from that have "n \<in> geophytes (select_geophytes plants taxa)"
      using CalscapeGeophytes_init_cell_subset[OF assms(3), of f g] i(4) by blast
    from geophytes_found[OF assms(1) this] show ?thesis by (simp add: i(1))
  qed
  from csv_rows_total[of self exclude_cultivars] f
  obtain rows where r: "csv_rows self exclude_cultivars = Inr rows" by blast
  from csv_rows_Inr(2)[OF r] have "rows_found plants rows" by (simp add: i(1))
  then have "\<forall>r\<in>set rows.
               common_name_for_species plants (row_species r) = Inr (row_common_name r) \<and>
               url_for_species plants (row_species r) = Inr (row_url r)"
    unfolding rows_found_def .
  with r have 5: "\<exists>rows. csv_rows self exclude_cultivars = Inr rows \<and>
            (\<forall>r\<in>set rows.
               common_name_for_species plants (row_species r) = Inr (row_common_name r) \<and>
               url_for_species plants (row_species r) = Inr (row_url r))"
    by blast
  show ?thesis by (intro conjI 1 2 3 4 5)
qed

theorem csv_lookups_succeed_witness:
  "CalscapePlants_init example_sheet = Inr example_plants \<and>
   get_column example_sheet ''Botanical Name'' 6 ''A'' = Inr example_species \<and>
   CalscapeGeophytes_init example_plants example_taxa = Inr example_geophytes \<and>
   dom (species_to_common_name example_plants) = set example_species \<and>
   dom (species_to_url example_plants) = set example_species \<and>
   geophytes example_geophytes \<subseteq> {s. Some s \<in> set example_species} \<and>
   csv_rows example_geophytes False = Inr [orion_row, douglas_iris_row] \<and>
   common_name_for_species example_plants (row_species orion_row) =
     Inr (row_common_name orion_row) \<and>
   url_for_species example_plants (row_species orion_row) = Inr (row_url orion_row) \<and>
   common_name_for_species example_plants (row_species douglas_iris_row) =
     Inr (row_common_name douglas_iris_row) \<and>
   url_for_species example_plants (row_species douglas_iris_row) = Inr (row_url douglas_iris_row)"
proof -
  note t = csv_lookups_succeed[OF example_plants_init example_columns(1) example_init,
      of False]
  from t have 2: "dom (species_to_common_name example_plants) = set example_species"
    by (elim conjE)
  from t have 3: "dom (species_to_url example_plants) = set example_species"
    by (elim conjE)
  from t have 4: "geophytes example_geophytes \<subseteq> {s. Some s \<in> set example_species}"
    by (elim conjE)
  from t obtain rows where r: "csv_rows example_geophytes False = Inr rows" and
    l: "\<forall>r\<in>set rows.
          common_name_for_species example_plants (row_species r) = Inr (row_common_name r) \<and>
          url_for_species example_plants (row_species r) = Inr (row_url r)"
    by (elim conjE exE)
  from r have rows: "rows = [orion_row, douglas_iris_row]"
    unfolding example_rows_all by simp
  have o: "orion_row \<in> set rows" and d: "douglas_iris_row \<in> set rows"
    unfolding rows by simp_all
  note lo = bspec[OF l o]
  note ld = bspec[OF l d]
  show ?thesis
    by (intro conjI example_plants_init example_columns(1) example_init 2 3 4 example_rows_all
          conjunct1[OF lo] conjunct2[OF lo] conjunct1[OF ld] conjunct2[OF ld])
qed

text \<open>
  Claim C9, as stated: after the construction of \<open>InatPlantTaxa\<close>, for every family and
  genus, the genus is in \<open>genuses_for_family\<close> of the family if and only if
  \<open>family_for_genus\<close> of the genus is the family, also for a file in which the same genus
  name occurs with different families. This fails: with the genus \<open>Iris\<close> first under
  \<open>Iridaceae\<close> and then under \<open>Liliaceae\<close>, the genus stays in the set of \<open>Iridaceae\<close>
  while the later record replaces its family.
\<close>

theorem taxonomy_indexes_conflict_counterexample:
  "conflicting_taxa = InatPlantTaxa_init [iris_row, iris_as_lily_row] \<and>
   ''Iris'' \<in> genuses_for_family conflicting_taxa ''Iridaceae'' \<and>
   family_for_genus conflicting_taxa ''Iris'' = Inr ''Liliaceae'' \<and>
   \<not> (''Iris'' \<in> genuses_for_family conflicting_taxa ''Iridaceae'' \<longleftrightarrow>
        family_for_genus conflicting_taxa ''Iris'' = Inr ''Iridaceae'')"
proof -
  have e: "conflicting_taxa =
     \<lparr> family_to_genus = [''Iridaceae'' \<mapsto> {''Iris''}, ''Liliaceae'' \<mapsto> {''Iris''}],
       genus_to_family = [''Iris'' \<mapsto> ''Liliaceae''] \<rparr>"
    by (simp add: conflicting_taxa_def InatPlantTaxa_init_def add_taxon_def iris_row_def
          iris_as_lily_row_def)
  have 1: "''Iris'' \<in> genuses_for_family conflicting_taxa ''Iridaceae''"
    by (simp add: e genuses_for_family_def)
  have 2: "family_for_genus conflicting_taxa ''Iris'' = Inr ''Liliaceae''"
    by (simp add: e family_for_genus_def)
  have 3: "\<not> (''Iris'' \<in> genuses_for_family conflicting_taxa ''Iridaceae'' \<longleftrightarrow>
        family_for_genus conflicting_taxa ''Iris'' = Inr ''Iridaceae'')"
    unfolding 2 using 1 by simp
  show ?thesis by (intro conjI conflicting_taxa_def 1 2 3)
qed

text \<open>
  Claim C9, amended: after the construction of \<open>InatPlantTaxa\<close> from any taxonomy file,
  a genus whose \<open>family_for_genus\<close> is a family is in \<open>genuses_for_family\<close> of that family;
  and for every file in which no genus name occurs in two kept records (kingdom
  \<open>Plantae\<close>, rank \<open>genus\<close>) with different families, the genus is in
  \<open>genuses_for_family\<close> of a family if and only if \<open>family_for_genus\<close> of the genus is that
  family. For a file where the same genus occurs with different families, the genus stays
  in the set of every family it was listed under (a genus is in \<open>genuses_for_family\<close> of
  a family exactly when some kept record lists it under that family), while
  \<open>family_for_genus\<close> returns the family of the last kept record that names the genus, and
  raises the missing-key error when there is none.
\<close>

theorem taxonomy_indexes_consistent:
  "(family_for_genus (InatPlantTaxa_init rows) g = Inr F \<longrightarrow>
      g \<in> genuses_for_family (InatPlantTaxa_init rows) F) \<and>
   ((\<forall>r1\<in>set rows. \<forall>r2\<in>set rows.
        is_plant_genus r1 \<and> is_plant_genus r2 \<and> scientificName r1 = scientificName r2
          \<longrightarrow> family r1 = family r2) \<longrightarrow>
    (g \<in> genuses_for_family (InatPlantTaxa_init rows) F \<longleftrightarrow>
     family_for_genus (InatPlantTaxa_init rows) g = Inr F)) \<and>
   (g \<in> genuses_for_family (InatPlantTaxa_init rows) F \<longleftrightarrow>
      (\<exists>r\<in>set rows. is_plant_genus r \<and> family r = F \<and> scientificName r = g)) \<and>
   family_for_genus (InatPlantTaxa_init rows) g =
     (case filter (\<lambda>r. is_plant_genus r \<and> scientificName r = g) rows of
        [] \<Rightarrow> Inl KeyError
      | r # rs \<Rightarrow> Inr (family (last (r # rs))))"
proof (intro conjI impI)
  assume "family_for_genus (InatPlantTaxa_init rows) g = Inr F"
  then show "g \<in> genuses_for_family (InatPlantTaxa_init rows) F"
    by (rule family_for_genus_in_genuses_for_family)
next
  assume a: "\<forall>r1\<in>set rows. \<forall>r2\<in>set rows.
        is_plant_genus r1 \<and> is_plant_genus r2 \<and> scientificName r1 = scientificName r2
          \<longrightarrow> family r1 = family r2"
  show "g \<in> genuses_for_family (InatPlantTaxa_init rows) F \<longleftrightarrow>
     family_for_genus (InatPlantTaxa_init rows) g = Inr F"
  proof
    assume "g \<in> genuses_for_family (InatPlantTaxa_init rows) F"
    with a show "family_for_genus (InatPlantTaxa_init rows) g = Inr F"
      by (rule genuses_for_family_consistent)
  next
    assume "family_for_genus (InatPlantTaxa_init rows) g = Inr F"
    then show "g \<in> genuses_for_family (InatPlantTaxa_init rows) F"
      by (rule family_for_genus_in_genuses_for_family)
  qed
next
  show "g \<in> genuses_for_family (InatPlantTaxa_init rows) F \<longleftrightarrow>
      (\<exists>r\<in>set rows. is_plant_genus r \<and> family r = F \<and> scientificName r = g)"
    unfolding InatPlantTaxa_init_genuses_for_family by blast
next
  show "family_for_genus (InatPlantTaxa_init rows) g =
     (case filter (\<lambda>r. is_plant_genus r \<and> scientificName r = g) rows of
        [] \<Rightarrow> Inl KeyError
      | r # rs \<Rightarrow> Inr (family (last (r # rs))))"
    by (rule InatPlantTaxa_init_family_for_genus)
qed

theorem taxonomy_indexes_consistent_witness:
  "example_taxa =
     InatPlantTaxa_init [iris_row, camassia_row, quercus_row, felis_row, iridaceae_row] \<and>
   family_for_genus example_taxa ''Iris'' = Inr ''Iridaceae'' \<and>
   ''Iris'' \<in> genuses_for_family example_taxa ''Iridaceae'' \<and>
   (''Iris'' \<in> genuses_for_family example_taxa ''Iridaceae'' \<longleftrightarrow>
      family_for_genus example_taxa ''Iris'' = Inr ''Iridaceae'') \<and>
   (''Iris'' \<in> genuses_for_family example_taxa ''Liliaceae'' \<longleftrightarrow>
      family_for_genus example_taxa ''Iris'' = Inr ''Liliaceae'') \<and>
   conflicting_taxa = InatPlantTaxa_init [iris_row, iris_as_lily_row] \<and>
   ''Iris'' \<in> genuses_for_family conflicting_taxa ''Iridaceae'' \<and>
   ''Iris'' \<in> genuses_for_family conflicting_taxa ''Liliaceae'' \<and>
   family_for_genus conflicting_taxa ''Iris'' = Inr ''Liliaceae'' \<and>
   family_for_genus conflicting_taxa ''Felis'' = Inl KeyError"
proof -
  let ?rows = "[iris_row, camassia_row, quercus_row, felis_row, iridaceae_row]"
  have h: "\<forall>r1\<in>set ?rows. \<forall>r2\<in>set ?rows.
        is_plant_genus r1 \<and> is_plant_genus r2 \<and> scientificName r1 = scientificName r2
          \<longrightarrow> family r1 = family r2"
    by (simp add: is_plant_genus_def iris_row_def camassia_row_def quercus_row_def
          felis_row_def iridaceae_row_def)
  have f: "family_for_genus example_taxa ''Iris'' = Inr ''Iridaceae''"
    by (simp add: example_family_for_genus)
  note t1 = taxonomy_indexes_consistent[of ?rows "''Iris''" "''Iridaceae''",
      folded example_taxa_def]
  note t2 = taxonomy_indexes_consistent[of ?rows "''Iris''" "''Liliaceae''",
      folded example_taxa_def]
  have 1: "''Iris'' \<in> genuses_for_family example_taxa ''Iridaceae''"
    by (rule mp[OF conjunct1[OF t1] f])
  have 2: "''Iris'' \<in> genuses_for_family example_taxa ''Iridaceae'' \<longleftrightarrow>
      family_for_genus example_taxa ''Iris'' = Inr ''Iridaceae''"
    by (rule mp[OF conjunct1[OF conjunct2[OF t1]] h])
  have 3: "''Iris'' \<in> genuses_for_family example_taxa ''Liliaceae'' \<longleftrightarrow>
      family_for_genus example_taxa ''Iris'' = Inr ''Liliaceae''"
    by (rule mp[OF conjunct1[OF conjunct2[OF t2]] h])
  let ?c = "[iris_row, iris_as_lily_row]"
  note c1 = taxonomy_indexes_consistent[of ?c "''Iris''" "''Iridaceae''",
      folded conflicting_taxa_def]
  note c2 = taxonomy_indexes_consistent[of ?c "''Iris''" "''Liliaceae''",
      folded conflicting_taxa_def]
  note c3 = taxonomy_indexes_consistent[of ?c "''Felis''" "''Felidae''",
      folded conflicting_taxa_def]
  have 4: "''Iris'' \<in> genuses_for_family conflicting_taxa ''Iridaceae''"
    unfolding conjunct1[OF conjunct2[OF conjunct2[OF c1]]]
    by (simp add: is_plant_genus_def iris_row_def iris_as_lily_row_def)
  have 5: "''Iris'' \<in> genuses_for_family conflicting_taxa ''Liliaceae''"
    unfolding conjunct1[OF conjunct2[OF conjunct2[OF c2]]]
    by (simp add: is_plant_genus_def iris_row_def iris_as_lily_row_def)
  have 6: "family_for_genus conflicting_taxa ''Iris'' = Inr ''Liliaceae''"
    unfolding conjunct2[OF conjunct2[OF conjunct2[OF c1]]]
    by (simp add: is_plant_genus_def iris_row_def iris_as_lily_row_def)
  have 7: "family_for_genus conflicting_taxa ''Felis'' = Inl KeyError"
    unfolding conjunct2[OF conjunct2[OF conjunct2[OF c3]]]
    by (simp add: is_plant_genus_def iris_row_def iris_as_lily_row_def)
  show ?thesis by (intro conjI example_taxa_def f 1 2 3 conflicting_taxa_def 4 5 6 7)
qed

text \<open>
  Claim C10. For a species name of the source table that contains no space, the genus
  derivation returns the whole name and raises no error: the species is grouped under
  that one-token genus in \<open>genus_to_species\<close>; and when the species reaches the geophyte
  set, the same one-token genus is the key of the taxonomy lookup while the constructor
  builds the family tree: the construction raises the missing-key error when the
  taxonomy has no family for the name taken as a genus, and otherwise the species is in
  the cell of that family and of the genus that is its own name, and in no other cell.
\<close>

theorem one_token_species_is_own_genus:
  assumes "CHR '' '' \<notin> set x"
  shows "first_token x = Inr x \<and>
         add_species (Some x) m =
           Inr (m(x \<mapsto> insert x (case m x of None \<Rightarrow> {} | Some S \<Rightarrow> S))) \<and>
         (CalscapePlants_init sheet = Inr plants \<and>
          get_column sheet ''Botanical Name'' 6 ''A'' = Inr species \<and>
          Some x \<in> set species \<longrightarrow>
            x \<in> genuses plants \<and> x \<in> species_for_genus plants x) \<and>
         place_species taxa x t =
           (case family_for_genus taxa x of
              Inl e \<Rightarrow> Inl e
            | Inr fam \<Rightarrow> Inr (tree_add t fam x x)) \<and>
         (CalscapePlants_init sheet = Inr plants \<and>
          x \<in> geophytes (select_geophytes plants taxa) \<longrightarrow>
            (family_for_genus taxa x = Inl KeyError \<longrightarrow>
               CalscapeGeophytes_init plants taxa = Inl KeyError) \<and>
            (\<forall>self. CalscapeGeophytes_init plants taxa = Inr self \<longrightarrow>
               (\<exists>fam. family_for_genus taxa x = Inr fam \<and>
                  x \<in> tree_cell (family_tree self) fam x \<and>
                  (\<forall>f g. x \<in> tree_cell (family_tree self) f g \<longrightarrow> f = fam \<and> g = x))))"
proof -
  have 1: "first_token x = Inr x" by (rule first_token_no_space[OF assms])
  have 2: "add_species (Some x) m =
           Inr (m(x \<mapsto> insert x (case m x of None \<Rightarrow> {} | Some S \<Rightarrow> S)))"
    by (simp add: add_species_def 1)
  have 3: "CalscapePlants_init sheet = Inr plants \<and>
          get_column sheet ''Botanical Name'' 6 ''A'' = Inr species \<and>
          Some x \<in> set species \<longrightarrow>
            x \<in> genuses plants \<and> x \<in> species_for_genus plants x"
  proof
    assume a: "CalscapePlants_init sheet = Inr plants \<and>
          get_column sheet ''Botanical Name'' 6 ''A'' = Inr species \<and>
          Some x \<in> set species"
    from a have i: "CalscapePlants_init sheet = Inr plants" by (rule conjunct1)
    from CalscapePlants_init_Inr[OF i] a have
      g: "genuses plants = {g. \<exists>s. Some s \<in> set species \<and> first_token s = Inr g}" and
      s: "species_for_genus plants x = {s. Some s \<in> set species \<and> first_token s = Inr x}"
      by auto
    from a 1 show "x \<in> genuses plants \<and> x \<in> species_for_genus plants x"
      unfolding g s by blast
  qed
  have 4: "place_species taxa x t =
           (case family_for_genus taxa x of
              Inl e \<Rightarrow> Inl e
            | Inr fam \<Rightarrow> Inr (tree_add t fam x x))"
    by (simp add: place_species_def 1)
  have 5: "CalscapePlants_init sheet = Inr plants \<and>
          x \<in> geophytes (select_geophytes plants taxa) \<longrightarrow>
            (family_for_genus taxa x = Inl KeyError \<longrightarrow>
               CalscapeGeophytes_init plants taxa = Inl KeyError) \<and>
            (\<forall>self. CalscapeGeophytes_init plants taxa = Inr self \<longrightarrow>
               (\<exists>fam. family_for_genus taxa x = Inr fam \<and>
                  x \<in> tree_cell (family_tree self) fam x \<and>
                  (\<forall>f g. x \<in> tree_cell (family_tree self) f g \<longrightarrow> f = fam \<and> g = x)))"
  proof (intro impI conjI allI)
    assume a: "CalscapePlants_init sheet = Inr plants \<and>
          x \<in> geophytes (select_geophytes plants taxa)"
    assume k: "family_for_genus taxa x = Inl KeyError"
    from a have i: "CalscapePlants_init sheet = Inr plants" by (rule conjunct1)
    from a have xg: "x \<in> geophytes (select_geophytes plants taxa)" by (rule conjunct2)
    have "\<not> mapped taxa x" unfolding mapped_def using 1 k by simp
    with xg have "\<not> (\<forall>s\<in>geophytes (select_geophytes plants taxa). mapped taxa s)"
      by blast
    with CalscapeGeophytes_init_cases(1)[OF i, of taxa]
    show "CalscapeGeophytes_init plants taxa = Inl KeyError" by metis
  next
    fix self
    assume a: "CalscapePlants_init sheet = Inr plants \<and>
          x \<in> geophytes (select_geophytes plants taxa)"
    assume s: "CalscapeGeophytes_init plants taxa = Inr self"
    from a have i: "CalscapePlants_init sheet = Inr plants" by (rule conjunct1)
    from a have xg: "x \<in> geophytes self"
      unfolding CalscapeGeophytes_init_Inr(4)[OF s] by (rule conjunct2)
    note T = CalscapeGeophytes_init_tree[OF i s]
    from T(2) xg have "mapped taxa x" by blast
    then obtain fam where fam: "genus_to_family taxa x = Some fam"
      unfolding mapped_iff using 1 by auto
    then have f: "family_for_genus taxa x = Inr fam"
      by (simp add: family_for_genus_def)
    have c: "x \<in> tree_cell (family_tree self) fam x"
      unfolding T(4) using xg 1 fam by simp
    have u: "f' = fam \<and> g' = x" if "x \<in> tree_cell (family_tree self) f' g'" for f' g'
    proof -
      from that have "first_token x = Inr g'" "genus_to_family taxa g' = Some f'"
        unfolding T(4) by simp_all
      with 1 fam show ?thesis by simp
    qed
    from f c u
    show "\<exists>fam. family_for_genus taxa x = Inr fam \<and>
            x \<in> tree_cell (family_tree self) fam x \<and>
            (\<forall>f g. x \<in> tree_cell (family_tree self) f g \<longrightarrow> f = fam \<and> g = x)"
      by blast
  qed
  show ?thesis by (intro conjI 1 2 3 4 5)
qed

theorem one_token_species_is_own_genus_witness:
  "CHR '' '' \<notin> set ''Allium'' \<and>
   first_token ''Allium'' = Inr ''Allium'' \<and>
   add_species (Some ''Allium'') Map.empty = Inr [''Allium'' \<mapsto> {''Allium''}] \<and>
   CalscapePlants_init one_token_sheet = Inr one_token_plants \<and>
   get_column one_token_sheet ''Botanical Name'' 6 ''A'' = Inr [Some ''Allium''] \<and>
   ''Allium'' \<in> genuses one_token_plants \<and>
   ''Allium'' \<in> species_for_genus one_token_plants ''Allium'' \<and>
   family_for_genus allium_taxa ''Allium'' = Inr ''Amaryllidaceae'' \<and>
   place_species allium_taxa ''Allium'' Map.empty =
     Inr [''Amaryllidaceae'' \<mapsto> [''Allium'' \<mapsto> {''Allium''}]] \<and>
   place_species example_taxa ''Allium'' Map.empty = Inl KeyError \<and>
   ''Allium'' \<in> geophytes (select_geophytes one_token_plants allium_taxa) \<and>
   CalscapeGeophytes_init one_token_plants allium_taxa = Inr allium_geophytes \<and>
   ''Allium'' \<in> tree_cell (family_tree allium_geophytes) ''Amaryllidaceae'' ''Allium'' \<and>
   ''Allium'' \<in> geophytes (select_geophytes one_token_plants example_taxa) \<and>
   family_for_genus example_taxa ''Allium'' = Inl KeyError \<and>
   CalscapeGeophytes_init one_token_plants example_taxa = Inl KeyError"
proof -
  have n: "CHR '' '' \<notin> set ''Allium''" by simp
  note t = one_token_species_is_own_genus[OF n, of Map.empty one_token_sheet one_token_plants
      "[Some ''Allium'']" allium_taxa Map.empty]
  note u = one_token_species_is_own_genus[OF n, of Map.empty one_token_sheet one_token_plants
      "[Some ''Allium'']" example_taxa Map.empty]
  from t have 1: "first_token ''Allium'' = Inr ''Allium''" by (elim conjE)
  from t have "add_species (Some ''Allium'') Map.empty =
      Inr (Map.empty(''Allium'' \<mapsto> insert ''Allium''
             (case Map.empty ''Allium'' of None \<Rightarrow> {} | Some S \<Rightarrow> S)))"
    by (elim conjE)
  then have 2: "add_species (Some ''Allium'') Map.empty = Inr [''Allium'' \<mapsto> {''Allium''}]"
    by simp
  have m: "Some ''Allium'' \<in> set [Some ''Allium'']" by simp
  have 3: "''Allium'' \<in> genuses one_token_plants \<and>
           ''Allium'' \<in> species_for_genus one_token_plants ''Allium''"
    by (rule mp[OF conjunct1[OF conjunct2[OF conjunct2[OF t]]]
          conjI[OF one_token_plants_init conjI[OF one_token_columns(1) m]]])
  have f: "family_for_genus allium_taxa ''Allium'' = Inr ''Amaryllidaceae''"
    by (simp add: allium_family_for_genus)
  have "place_species allium_taxa ''Allium'' Map.empty =
           (case family_for_genus allium_taxa ''Allium'' of
              Inl e \<Rightarrow> Inl e
            | Inr fam \<Rightarrow> Inr (tree_add Map.empty fam ''Allium'' ''Allium''))"
    by (rule conjunct1[OF conjunct2[OF conjunct2[OF conjunct2[OF t]]]])
  then have 4: "place_species allium_taxa ''Allium'' Map.empty =
     Inr [''Amaryllidaceae'' \<mapsto> [''Allium'' \<mapsto> {''Allium''}]]"
    unfolding f by (simp add: tree_add_def)
  have k: "family_for_genus example_taxa ''Allium'' = Inl KeyError"
    by (simp add: example_family_for_genus)
  have "place_species example_taxa ''Allium'' Map.empty =
           (case family_for_genus example_taxa ''Allium'' of
              Inl e \<Rightarrow> Inl e
            | Inr fam \<Rightarrow> Inr (tree_add Map.empty fam ''Allium'' ''Allium''))"
    by (rule conjunct1[OF conjunct2[OF conjunct2[OF conjunct2[OF u]]]])
  then have 5: "place_species example_taxa ''Allium'' Map.empty = Inl KeyError"
    unfolding k by simp
  have g1: "''Allium'' \<in> geophytes (select_geophytes one_token_plants allium_taxa)"
    by (simp add: allium_select)
  note t5 = mp[OF conjunct2[OF conjunct2[OF conjunct2[OF conjunct2[OF t]]]]
      conjI[OF one_token_plants_init g1]]
  from conjunct2[OF t5] allium_init obtain fam where
    ff: "family_for_genus allium_taxa ''Allium'' = Inr fam" and
    cc: "''Allium'' \<in> tree_cell (family_tree allium_geophytes) fam ''Allium''"
    by blast
  from ff f have "fam = ''Amaryllidaceae''" by simp
  with cc have 6: "''Allium'' \<in> tree_cell (family_tree allium_geophytes) ''Amaryllidaceae'' ''Allium''"
    by simp
  have "''Allium'' \<in> included_genuses one_token_plants example_taxa"
    by (simp add: included_genuses_def)
  moreover have "''Allium'' \<in> species_for_genus one_token_plants ''Allium''"
    by (simp add: one_token_species_for_genus)
  ultimately have g2: "''Allium'' \<in> geophytes (select_geophytes one_token_plants example_taxa)"
    unfolding select_geophytes_geophytes[OF
        CalscapePlants_init_finite(1)[OF one_token_plants_init]]
    by (rule UN_I)
  note u5 = mp[OF conjunct2[OF conjunct2[OF conjunct2[OF conjunct2[OF u]]]]
      conjI[OF one_token_plants_init g2]]
  have 7: "CalscapeGeophytes_init one_token_plants example_taxa = Inl KeyError"
    by (rule mp[OF conjunct1[OF u5] k])
  show ?thesis
    by (intro conjI n 1 2 one_token_plants_init one_token_columns(1) conjunct1[OF 3]
          conjunct2[OF 3] f 4 5 g1 allium_init 6 g2 k 7)
qed

end
